theory Spec2Isabelle
  imports Complex_Main "HOL-Library.Multiset"
begin

section \<open>JavaScript numbers\<close>

text \<open>
  Every number of \<^verbatim>\<open>src/input.js\<close> is a JavaScript number. The model keeps the special
  values of that type, which the arithmetic of the source can produce (a division by
  zero, the minimum of an empty list), and takes the finite values as real numbers:
  rounding error, overflow and the sign of zero are not modelled. A zero divisor is
  read as \<open>+0\<close>; the only divisor of the source that can be zero is a square root,
  which is \<open>+0\<close> when it is zero.
\<close>

datatype jsnum = Fin real | PInf | NInf | NaN

fun js_finite :: "jsnum \<Rightarrow> bool" where
  "js_finite (Fin a) = True"
| "js_finite PInf = False"
| "js_finite NInf = False"
| "js_finite NaN = False"

fun js_neg :: "jsnum \<Rightarrow> jsnum" where
  "js_neg (Fin a) = Fin (- a)"
| "js_neg PInf = NInf"
| "js_neg NInf = PInf"
| "js_neg NaN = NaN"

fun js_add :: "jsnum \<Rightarrow> jsnum \<Rightarrow> jsnum" where
  "js_add NaN b = NaN"
| "js_add a NaN = NaN"
| "js_add (Fin a) (Fin b) = Fin (a + b)"
| "js_add (Fin a) PInf = PInf"
| "js_add (Fin a) NInf = NInf"
| "js_add PInf NInf = NaN"
| "js_add PInf b = PInf"
| "js_add NInf PInf = NaN"
| "js_add NInf b = NInf"

definition js_sub :: "jsnum \<Rightarrow> jsnum \<Rightarrow> jsnum" where
  "js_sub a b = js_add a (js_neg b)"

text \<open>The sign of a product or quotient with an infinite operand.\<close>

definition js_signed_inf :: "bool \<Rightarrow> jsnum" where
  "js_signed_inf positive = (if positive then PInf else NInf)"

fun js_mul :: "jsnum \<Rightarrow> jsnum \<Rightarrow> jsnum" where
  "js_mul NaN b = NaN"
| "js_mul a NaN = NaN"
| "js_mul (Fin a) (Fin b) = Fin (a * b)"
| "js_mul (Fin a) PInf = (if a = 0 then NaN else js_signed_inf (0 < a))"
| "js_mul (Fin a) NInf = (if a = 0 then NaN else js_signed_inf (a < 0))"
| "js_mul PInf (Fin b) = (if b = 0 then NaN else js_signed_inf (0 < b))"
| "js_mul NInf (Fin b) = (if b = 0 then NaN else js_signed_inf (b < 0))"
| "js_mul PInf PInf = PInf"
| "js_mul PInf NInf = NInf"
| "js_mul NInf PInf = NInf"
| "js_mul NInf NInf = PInf"

fun js_div :: "jsnum \<Rightarrow> jsnum \<Rightarrow> jsnum" where
  "js_div NaN b = NaN"
| "js_div a NaN = NaN"
| "js_div (Fin a) (Fin b) =
     (if b = 0 then (if a = 0 then NaN else js_signed_inf (0 < a)) else Fin (a / b))"
| "js_div (Fin a) b = Fin 0"
| "js_div PInf (Fin b) = js_signed_inf (0 \<le> b)"
| "js_div NInf (Fin b) = js_signed_inf (b < 0)"
| "js_div a b = NaN"

fun js_sqrt :: "jsnum \<Rightarrow> jsnum" where
  "js_sqrt (Fin a) = (if a < 0 then NaN else Fin (sqrt a))"
| "js_sqrt PInf = PInf"
| "js_sqrt NInf = NaN"
| "js_sqrt NaN = NaN"

fun js_abs :: "jsnum \<Rightarrow> jsnum" where
  "js_abs (Fin a) = Fin \<bar>a\<bar>"
| "js_abs PInf = PInf"
| "js_abs NInf = PInf"
| "js_abs NaN = NaN"

text \<open>The comparisons \<^verbatim>\<open><\<close>, \<^verbatim>\<open>>\<close>, \<^verbatim>\<open>>=\<close>, \<^verbatim>\<open><=\<close> and \<^verbatim>\<open>===\<close>: all false on \<open>NaN\<close>.\<close>

fun js_lt :: "jsnum \<Rightarrow> jsnum \<Rightarrow> bool" where
  "js_lt NaN b = False"
| "js_lt a NaN = False"
| "js_lt (Fin a) (Fin b) = (a < b)"
| "js_lt a NInf = False"
| "js_lt PInf b = False"
| "js_lt NInf b = True"
| "js_lt (Fin a) PInf = True"

definition js_gt :: "jsnum \<Rightarrow> jsnum \<Rightarrow> bool" where
  "js_gt a b = js_lt b a"

definition js_eq :: "jsnum \<Rightarrow> jsnum \<Rightarrow> bool" where
  "js_eq a b = (a \<noteq> NaN \<and> b \<noteq> NaN \<and> a = b)"

definition js_ge :: "jsnum \<Rightarrow> jsnum \<Rightarrow> bool" where
  "js_ge a b = (js_gt a b \<or> js_eq a b)"

definition js_le :: "jsnum \<Rightarrow> jsnum \<Rightarrow> bool" where
  "js_le a b = (js_lt a b \<or> js_eq a b)"

text \<open>
  \<^verbatim>\<open>Math.min\<close> and \<^verbatim>\<open>Math.max\<close> of an argument list: the running result starts at
  \<open>+Infinity\<close> (\<open>-Infinity\<close>), and a \<open>NaN\<close> argument makes the result \<open>NaN\<close>.
\<close>

definition js_min2 :: "jsnum \<Rightarrow> jsnum \<Rightarrow> jsnum" where
  "js_min2 v lowest = (if v = NaN \<or> lowest = NaN then NaN else if js_lt v lowest then v else lowest)"

definition js_max2 :: "jsnum \<Rightarrow> jsnum \<Rightarrow> jsnum" where
  "js_max2 v highest = (if v = NaN \<or> highest = NaN then NaN else if js_gt v highest then v else highest)"

definition Math_min :: "jsnum list \<Rightarrow> jsnum" where
  "Math_min vs = fold js_min2 vs PInf"

definition Math_max :: "jsnum list \<Rightarrow> jsnum" where
  "Math_max vs = fold js_max2 vs NInf"

text \<open>\<^verbatim>\<open>Math.atan2(y, x)\<close>, in radians.\<close>

fun Math_atan2 :: "jsnum \<Rightarrow> jsnum \<Rightarrow> jsnum" where
  "Math_atan2 NaN b = NaN"
| "Math_atan2 a NaN = NaN"
| "Math_atan2 (Fin b) (Fin a) =
     (if 0 < a then Fin (arctan (b / a))
      else if a < 0 then (if 0 \<le> b then Fin (arctan (b / a) + pi) else Fin (arctan (b / a) - pi))
      else if 0 < b then Fin (pi / 2)
      else if b < 0 then Fin (- (pi / 2))
      else Fin 0)"
| "Math_atan2 (Fin b) PInf = Fin 0"
| "Math_atan2 (Fin b) NInf = (if 0 \<le> b then Fin pi else Fin (- pi))"
| "Math_atan2 PInf (Fin a) = Fin (pi / 2)"
| "Math_atan2 NInf (Fin a) = Fin (- (pi / 2))"
| "Math_atan2 PInf PInf = Fin (pi / 4)"
| "Math_atan2 PInf NInf = Fin (3 * pi / 4)"
| "Math_atan2 NInf PInf = Fin (- (pi / 4))"
| "Math_atan2 NInf NInf = Fin (- (3 * pi / 4))"

text \<open>
  \<^verbatim>\<open>Math.round\<close>: the nearest integer, a half rounded up. The source calls a helper
  \<^verbatim>\<open>round\<close> that \<^verbatim>\<open>src/input.js\<close> does not define; the functions below take it as
  the parameter \<open>rnd\<close>, and the examples instantiate it with \<open>Math_round\<close>.
\<close>

fun Math_round :: "jsnum \<Rightarrow> jsnum" where
  "Math_round (Fin a) = Fin (of_int \<lfloor>a + 1 / 2\<rfloor>)"
| "Math_round a = a"

section \<open>Constants\<close>

definition EVENT_START :: int where "EVENT_START = 1"
definition EVENT_MOVE :: int where "EVENT_MOVE = 2"
definition EVENT_END :: int where "EVENT_END = 4"
definition EVENT_CANCEL :: int where "EVENT_CANCEL = 8"

definition DIRECTION_LEFT :: string where "DIRECTION_LEFT = ''left''"
definition DIRECTION_RIGHT :: string where "DIRECTION_RIGHT = ''right''"
definition DIRECTION_UP :: string where "DIRECTION_UP = ''up''"
definition DIRECTION_DOWN :: string where "DIRECTION_DOWN = ''down''"
definition DIRECTION_NONE :: string where "DIRECTION_NONE = ''''"

section \<open>Data\<close>

text \<open>A point \<^verbatim>\<open>{x, y}\<close> and a pointer, of which the source reads \<^verbatim>\<open>clientX\<close> and \<^verbatim>\<open>clientY\<close>.\<close>

record point =
  x :: jsnum
  y :: jsnum

record pointer =
  clientX :: jsnum
  clientY :: jsnum

text \<open>
  The property names \<^verbatim>\<open>PROPS_XY\<close> and \<^verbatim>\<open>PROPS_CLIENT_XY\<close> select the two coordinates
  of an object; they are modelled as the pair of the two field selectors. Where the
  source omits the optional argument \<^verbatim>\<open>props\<close>, it defaults to \<^verbatim>\<open>PROPS_XY\<close>, and the
  caller in the model passes \<open>PROPS_XY\<close>.
\<close>

type_synonym 'a props = "('a \<Rightarrow> jsnum) \<times> ('a \<Rightarrow> jsnum)"

definition PROPS_XY :: "point props" where
  "PROPS_XY = (x, y)"

definition PROPS_CLIENT_XY :: "pointer props" where
  "PROPS_CLIENT_XY = (clientX, clientY)"

section \<open>Geometry\<close>

text \<open>
  Modelled from the spec: the helper \<^verbatim>\<open>each\<close> is called by \<^verbatim>\<open>src/input.js\<close> and not
  defined there. The spec has the clone keep one pair per pointer of the sample and the
  center range over all pointers, so \<open>each\<close> calls the iterator on every element of
  the array, in the order of the array. The arrays that the iterator of the source
  pushes to are the state that the iterator of the model takes and returns.
\<close>

definition each :: "'a list \<Rightarrow> ('a \<Rightarrow> 's \<Rightarrow> 's) \<Rightarrow> 's \<Rightarrow> 's" where
  "each obj iterator st = fold iterator obj st"

definition getCenter :: "(jsnum \<Rightarrow> jsnum) \<Rightarrow> pointer list \<Rightarrow> point" where
  "getCenter rnd ps =
     (if length ps = 1
      then \<lparr>x = rnd (clientX (ps ! 0)), y = rnd (clientY (ps ! 0))\<rparr>
      else
        let (xs, ys) = each ps (\<lambda>pointer (xs, ys). (xs @ [clientX pointer], ys @ [clientY pointer]))
                         ([], [])
        in \<lparr>x = rnd (js_div (js_add (Math_min xs) (Math_max xs)) (Fin 2)),
            y = rnd (js_div (js_add (Math_min ys) (Math_max ys)) (Fin 2))\<rparr>)"

definition getDirection :: "point \<Rightarrow> point \<Rightarrow> string" where
  "getDirection p1 p2 =
     (let dx = js_sub (x p1) (x p2); dy = js_sub (y p1) (y p2)
      in if js_eq dx dy then DIRECTION_NONE
         else if js_ge (js_abs dx) (js_abs dy)
           then (if js_gt dx (Fin 0) then DIRECTION_LEFT else DIRECTION_RIGHT)
         else (if js_gt dy (Fin 0) then DIRECTION_UP else DIRECTION_DOWN))"

definition getDistance :: "'a \<Rightarrow> 'a \<Rightarrow> 'a props \<Rightarrow> jsnum" where
  "getDistance p1 p2 props =
     (let dx = js_sub (fst props p2) (fst props p1);
          dy = js_sub (snd props p2) (snd props p1)
      in js_sqrt (js_add (js_mul dx dx) (js_mul dy dy)))"

definition getAngle :: "'a \<Rightarrow> 'a \<Rightarrow> 'a props \<Rightarrow> jsnum" where
  "getAngle p1 p2 props =
     (let dx = js_sub (fst props p2) (fst props p1);
          dy = js_sub (snd props p2) (snd props p1)
      in js_div (js_mul (Math_atan2 dy dx) (Fin 180)) (Fin pi))"


text \<open>
  An array read \<^verbatim>\<open>a[i]\<close> is \<^verbatim>\<open>undefined\<close> out of range, and a property read on
  \<^verbatim>\<open>undefined\<close> throws a \<^verbatim>\<open>TypeError\<close>. The source reads the coordinates in
  \<^verbatim>\<open>getDistance\<close> and \<^verbatim>\<open>getAngle\<close>; only \<^verbatim>\<open>getRotation\<close> and \<^verbatim>\<open>getScale\<close> can pass
  them an \<^verbatim>\<open>undefined\<close> pointer, so the model decides the throw there, where the
  pointers are taken from the arrays.
\<close>

datatype error = TypeError

fun nth_js :: "'a list \<Rightarrow> nat \<Rightarrow> 'a option" where
  "nth_js [] i = None"
| "nth_js (a # as) 0 = Some a"
| "nth_js (a # as) (Suc i) = nth_js as i"

definition getRotation :: "pointer list \<Rightarrow> pointer list \<Rightarrow> error + jsnum" where
  "getRotation start end' =
     (case (nth_js end' 1, nth_js end' 0, nth_js start 1, nth_js start 0) of
        (Some e1, Some e0, Some s1, Some s0) \<Rightarrow>
          Inr (js_sub (getAngle e1 e0 PROPS_CLIENT_XY) (getAngle s1 s0 PROPS_CLIENT_XY))
      | _ \<Rightarrow> Inl TypeError)"

definition getScale :: "pointer list \<Rightarrow> pointer list \<Rightarrow> error + jsnum" where
  "getScale start end' =
     (case (nth_js end' 0, nth_js end' 1, nth_js start 0, nth_js start 1) of
        (Some e0, Some e1, Some s0, Some s1) \<Rightarrow>
          Inr (js_div (getDistance e0 e1 PROPS_CLIENT_XY) (getDistance s0 s1 PROPS_CLIENT_XY))
      | _ \<Rightarrow> Inl TypeError)"

section \<open>Session and samples\<close>

text \<open>
  The stored clone of a sample, and the session \<^verbatim>\<open>{firstInput, firstMultiple}\<close>. A
  property of the session that is \<^verbatim>\<open>undefined\<close> (as in the fresh \<^verbatim>\<open>{}\<close>) or \<^verbatim>\<open>false\<close>
  is \<open>None\<close>: the source only tests it for truth.
\<close>

record snapshot =
  timeStamp :: jsnum
  pointers :: "pointer list"
  center :: point

record session =
  firstInput :: "snapshot option"
  firstMultiple :: "snapshot option"

definition empty_session :: session where
  "empty_session = \<lparr>firstInput = None, firstMultiple = None\<rparr>"

text \<open>
  The object \<^verbatim>\<open>inputData\<close>, with the properties that the source reads or assigns. The
  source assigns to the object it is given; the model returns the updated record.
\<close>

record event =
  timeStamp :: jsnum

record inputData =
  pointers :: "pointer list"
  changedPointers :: "pointer list"
  srcEvent :: event
  isFirst :: bool
  isFinal :: bool
  eventType :: int
  timeStamp :: jsnum
  center :: point
  angle :: jsnum
  distance :: jsnum
  direction :: string
  velocity :: jsnum
  velocityX :: jsnum
  velocityY :: jsnum
  deltaTime :: jsnum
  deltaX :: jsnum
  deltaY :: jsnum
  scale :: jsnum
  rotation :: jsnum

text \<open>
  The instance, of which the source uses the session. The model takes the session of
  the instance to be an object, as it is once a first sample has been handled.
\<close>

record inst =
  session :: session

definition simpleCloneInputData :: "(jsnum \<Rightarrow> jsnum) \<Rightarrow> inputData \<Rightarrow> snapshot" where
  "simpleCloneInputData rnd inputData =
     (let ps = each (inputData.pointers inputData)
                 (\<lambda>pointer ps. ps @ [\<lparr>clientX = rnd (clientX pointer),
                                      clientY = rnd (clientY pointer)\<rparr>])
                 []
      in \<lparr>snapshot.timeStamp = event.timeStamp (srcEvent inputData),
          snapshot.pointers = ps,
          snapshot.center = getCenter rnd ps\<rparr>)"

text \<open>
  The result is the session and the sample as the call leaves them, and the error if
  the call throws: the assignments made before the throw stay.
\<close>

definition computeInputData ::
  "(jsnum \<Rightarrow> jsnum) \<Rightarrow> session \<Rightarrow> inputData \<Rightarrow> session \<times> inputData \<times> error option" where
  "computeInputData rnd session0 inputData =
     (let ps = inputData.pointers inputData;
          pointersLength = length ps;
          firstInput' = (case firstInput session0 of
                           None \<Rightarrow> simpleCloneInputData rnd inputData
                         | Some fi \<Rightarrow> fi);
          firstMultiple' = (if pointersLength > 1 \<and> firstMultiple session0 = None
                            then Some (simpleCloneInputData rnd inputData)
                            else if pointersLength = 1 then None
                            else firstMultiple session0);
          session1 = session0\<lparr>firstInput := Some firstInput', firstMultiple := firstMultiple'\<rparr>;
          offsetCenter = (case firstMultiple' of
                            Some fm \<Rightarrow> snapshot.center fm
                          | None \<Rightarrow> snapshot.center firstInput');
          c = getCenter rnd ps;
          ts = event.timeStamp (srcEvent inputData);
          inputData1 = inputData
            \<lparr>inputData.timeStamp := ts,
             inputData.center := c,
             angle := getAngle offsetCenter c PROPS_XY,
             distance := getDistance offsetCenter c PROPS_XY,
             direction := getDirection offsetCenter c,
             velocity := Fin (1 / 2),
             velocityX := Fin (1 / 2),
             velocityY := Fin (1 / 2),
             deltaTime := js_sub ts (snapshot.timeStamp firstInput'),
             deltaX := js_sub (x c) (x offsetCenter),
             deltaY := js_sub (y c) (y offsetCenter)\<rparr>
      in case firstMultiple' of
           None \<Rightarrow> (session1, inputData1\<lparr>scale := Fin 1, rotation := Fin 0\<rparr>, None)
         | Some fm \<Rightarrow>
             (case getScale (snapshot.pointers fm) ps of
                Inl e \<Rightarrow> (session1, inputData1, Some e)
              | Inr sc \<Rightarrow>
                  (case getRotation (snapshot.pointers fm) ps of
                     Inl e \<Rightarrow> (session1, inputData1\<lparr>scale := sc\<rparr>, Some e)
                   | Inr rot \<Rightarrow> (session1, inputData1\<lparr>scale := sc, rotation := rot\<rparr>, None))))"

text \<open>
  The handler returns the instance and the sample as it leaves them. The sample is
  handed to \<^verbatim>\<open>inst.update\<close> when no error is returned; a throw of \<^verbatim>\<open>computeInputData\<close>
  leaves the handler before that call.
\<close>

definition inputHandler ::
  "(jsnum \<Rightarrow> jsnum) \<Rightarrow> inst \<Rightarrow> int \<Rightarrow> inputData \<Rightarrow> inst \<times> inputData \<times> error option" where
  "inputHandler rnd inst0 eventType' inputData =
     (let pointersLen = int (length (inputData.pointers inputData));
          changedPointersLen = int (length (changedPointers inputData));
          isFirst' = (eventType' = EVENT_START \<and> pointersLen - changedPointersLen = 0);
          isFinal' = (eventType' = EVENT_END \<and> pointersLen - changedPointersLen = 0);
          inputData1 = inputData\<lparr>isFirst := isFirst', isFinal := isFinal'\<rparr>;
          inst1 = (if eventType' = EVENT_START \<and> isFirst inputData1
                   then inst0\<lparr>session := empty_session\<rparr> else inst0);
          inputData2 = inputData1\<lparr>eventType := eventType'\<rparr>;
          (session', inputData', err) = computeInputData rnd (session inst1) inputData2
      in (inst1\<lparr>session := session'\<rparr>, inputData', err))"


section \<open>Gestures\<close>

text \<open>
  A gesture is the run of \<^verbatim>\<open>computeInputData\<close> calls on one session: the handler
  replaces the session by \<^verbatim>\<open>{}\<close> at the first sample and passes the same session to
  every later call. A throw does not undo the assignments to the session, so the next
  call continues from the session that the throwing call left.
\<close>

fun enrich_all :: "(jsnum \<Rightarrow> jsnum) \<Rightarrow> session \<Rightarrow> inputData list \<Rightarrow> session" where
  "enrich_all rnd s [] = s"
| "enrich_all rnd s (d # ds) = enrich_all rnd (fst (computeInputData rnd s d)) ds"

text \<open>The events of an instance, each an event type with its sample, handled in order.\<close>

fun handle_all :: "(jsnum \<Rightarrow> jsnum) \<Rightarrow> inst \<Rightarrow> (int \<times> inputData) list \<Rightarrow> inst" where
  "handle_all rnd i [] = i"
| "handle_all rnd i ((et, d) # evs) = handle_all rnd (fst (inputHandler rnd i et d)) evs"

abbreviation pointerCount :: "inputData \<Rightarrow> nat" where
  "pointerCount d \<equiv> length (inputData.pointers d)"

text \<open>
  The samples with more than one pointer that a gesture has seen since its last sample
  with exactly one pointer, oldest first.
\<close>

definition multi_since_single :: "inputData list \<Rightarrow> inputData list" where
  "multi_since_single ds =
     filter (\<lambda>d. pointerCount d > 1) (rev (takeWhile (\<lambda>d. pointerCount d \<noteq> 1) (rev ds)))"

text \<open>
  A sample as an adapter hands it over: the pointers, the changed pointers and the time
  stamp of the source event. The properties that the handler assigns hold values that
  it overwrites.
\<close>

definition rawSample :: "pointer list \<Rightarrow> pointer list \<Rightarrow> jsnum \<Rightarrow> inputData" where
  "rawSample ps cps t =
     \<lparr>inputData.pointers = ps, changedPointers = cps, srcEvent = \<lparr>event.timeStamp = t\<rparr>,
      isFirst = False, isFinal = False, eventType = 0, inputData.timeStamp = NaN,
      inputData.center = \<lparr>x = NaN, y = NaN\<rparr>, angle = NaN, distance = NaN,
      direction = [], velocity = NaN, velocityX = NaN, velocityY = NaN,
      deltaTime = NaN, deltaX = NaN, deltaY = NaN, scale = NaN, rotation = NaN\<rparr>"

definition pointerAt :: "real \<Rightarrow> real \<Rightarrow> pointer" where
  "pointerAt a b = \<lparr>clientX = Fin a, clientY = Fin b\<rparr>"

section \<open>The loops as maps\<close>

lemma each_push: "each obj (\<lambda>a as. as @ [f a]) st = st @ map f obj"
  unfolding each_def by (induction obj arbitrary: st) simp_all

lemma each_push2:
  "each obj (\<lambda>a (as, bs). (as @ [f a], bs @ [g a])) (s, t) = (s @ map f obj, t @ map g obj)"
  unfolding each_def by (induction obj arbitrary: s t) simp_all

lemma getCenter_map:
  "getCenter rnd ps =
     (if length ps = 1
      then \<lparr>x = rnd (clientX (ps ! 0)), y = rnd (clientY (ps ! 0))\<rparr>
      else
        let xs = map clientX ps; ys = map clientY ps
        in \<lparr>x = rnd (js_div (js_add (Math_min xs) (Math_max xs)) (Fin 2)),
            y = rnd (js_div (js_add (Math_min ys) (Math_max ys)) (Fin 2))\<rparr>)"
  by (simp add: getCenter_def each_push2 Let_def)

lemma simpleCloneInputData_map:
  "simpleCloneInputData rnd inputData =
     (let ps = map (\<lambda>pointer. \<lparr>clientX = rnd (clientX pointer), clientY = rnd (clientY pointer)\<rparr>)
                 (inputData.pointers inputData)
      in \<lparr>snapshot.timeStamp = event.timeStamp (srcEvent inputData),
          snapshot.pointers = ps,
          snapshot.center = getCenter rnd ps\<rparr>)"
  by (simp add: simpleCloneInputData_def each_push Let_def)

section \<open>Arithmetic\<close>

lemma js_sub_Fin [simp]: "js_sub (Fin a) (Fin b) = Fin (a - b)"
  by (simp add: js_sub_def)

lemma js_sub_self: "js_sub a a = (if js_finite a then Fin 0 else NaN)"
  by (cases a) (simp_all add: js_sub_def)

lemma js_le_not_gt: "js_le a b \<Longrightarrow> \<not> js_gt a b"
  by (cases a; cases b) (auto simp add: js_le_def js_gt_def js_eq_def)

lemma js_div_by_zero:
  assumes "(\<exists>r \<ge> 0. v = Fin r) \<or> v = PInf \<or> v = NaN"
    and "z = Fin 0 \<or> z = NaN"
  shows "js_div v z = PInf \<or> js_div v z = NaN"
  using assms by (cases v) (auto simp add: js_signed_inf_def)

lemma sqrt_100: "sqrt 100 = 10"
  using real_sqrt_abs2 [of 10] by simp

lemma sqrt_400: "sqrt 400 = 20"
  using real_sqrt_abs2 [of 20] by simp

subsection \<open>Minimum and maximum of a list\<close>

lemma js_min2_commute: "js_min2 a (js_min2 b c) = js_min2 b (js_min2 a c)"
  by (cases a; cases b; cases c) (auto simp add: js_min2_def)

lemma js_max2_commute: "js_max2 a (js_max2 b c) = js_max2 b (js_max2 a c)"
  by (cases a; cases b; cases c) (auto simp add: js_max2_def js_gt_def)

lemma Math_min_mset: "mset vs = mset ws \<Longrightarrow> Math_min vs = Math_min ws"
  unfolding Math_min_def
  by (rule arg_cong [where f = "\<lambda>f. f PInf"], rule fold_multiset_equiv)
     (auto simp add: fun_eq_iff js_min2_commute)

lemma Math_max_mset: "mset vs = mset ws \<Longrightarrow> Math_max vs = Math_max ws"
  unfolding Math_max_def
  by (rule arg_cong [where f = "\<lambda>f. f NInf"], rule fold_multiset_equiv)
     (auto simp add: fun_eq_iff js_max2_commute)

lemma fold_js_min2_Fin: "fold js_min2 (map Fin vs) (Fin a) = Fin (fold min vs a)"
  by (induction vs arbitrary: a) (auto simp add: js_min2_def min_def)

lemma fold_js_max2_Fin: "fold js_max2 (map Fin vs) (Fin a) = Fin (fold max vs a)"
  by (induction vs arbitrary: a) (auto simp add: js_max2_def js_gt_def max_def)

lemma Math_min_Fin:
  assumes "vs \<noteq> []"
  shows "Math_min (map Fin vs) = Fin (Min (set vs))"
proof (cases vs)
  case Nil
  with assms show ?thesis by simp
next
  case (Cons a as)
  then show ?thesis
    using Min.set_eq_fold [of a as]
    by (simp add: Math_min_def js_min2_def fold_js_min2_Fin)
qed

lemma Math_max_Fin:
  assumes "vs \<noteq> []"
  shows "Math_max (map Fin vs) = Fin (Max (set vs))"
proof (cases vs)
  case Nil
  with assms show ?thesis by simp
next
  case (Cons a as)
  then show ?thesis
    using Max.set_eq_fold [of a as]
    by (simp add: Math_max_def js_max2_def js_gt_def fold_js_max2_Fin)
qed

section \<open>Geometry of finite points\<close>

lemma getDirection_real:
  "getDirection \<lparr>x = Fin a1, y = Fin b1\<rparr> \<lparr>x = Fin a2, y = Fin b2\<rparr> =
     (if a1 - a2 = b1 - b2 then DIRECTION_NONE
      else if \<bar>a1 - a2\<bar> \<ge> \<bar>b1 - b2\<bar>
        then (if a1 - a2 > 0 then DIRECTION_LEFT else DIRECTION_RIGHT)
      else (if b1 - b2 > 0 then DIRECTION_UP else DIRECTION_DOWN))"
  by (auto simp add: getDirection_def Let_def js_eq_def js_ge_def js_gt_def)

lemma getCenter_mset:
  assumes "mset ps = mset qs"
  shows "getCenter rnd ps = getCenter rnd qs"
proof -
  have len: "length ps = length qs"
    using assms by (rule mset_eq_length)
  show ?thesis
  proof (cases "length ps = 1")
    case True
    then obtain p where ps: "ps = [p]"
      by (cases ps) simp_all
    with assms have "qs = [p]" by simp
    with ps show ?thesis by simp
  next
    case False
    have "mset (map clientX ps) = mset (map clientX qs)"
      and "mset (map clientY ps) = mset (map clientY qs)"
      using assms by simp_all
    then have "Math_min (map clientX ps) = Math_min (map clientX qs)"
      and "Math_max (map clientX ps) = Math_max (map clientX qs)"
      and "Math_min (map clientY ps) = Math_min (map clientY qs)"
      and "Math_max (map clientY ps) = Math_max (map clientY qs)"
      by (simp_all add: Math_min_mset Math_max_mset)
    with False len show ?thesis
      by (simp add: getCenter_map Let_def)
  qed
qed

lemma getCenter_box:
  assumes "1 < length cs"
  shows "getCenter rnd (map (\<lambda>(a, b). pointerAt a b) cs) =
     \<lparr>x = rnd (Fin ((Min (fst ` set cs) + Max (fst ` set cs)) / 2)),
      y = rnd (Fin ((Min (snd ` set cs) + Max (snd ` set cs)) / 2))\<rparr>"
proof -
  have ne: "map fst cs \<noteq> []" "map snd cs \<noteq> []"
    using assms by auto
  have xs: "map clientX (map (\<lambda>(a, b). pointerAt a b) cs) = map Fin (map fst cs)"
    and ys: "map clientY (map (\<lambda>(a, b). pointerAt a b) cs) = map Fin (map snd cs)"
    by (simp_all add: pointerAt_def split_def)
  show ?thesis
    using assms
    unfolding getCenter_map Let_def xs ys Math_min_Fin [OF ne(1)] Math_max_Fin [OF ne(1)]
      Math_min_Fin [OF ne(2)] Math_max_Fin [OF ne(2)]
    by simp
qed

text \<open>A distance is a square root: not negative, and never \<open>-Infinity\<close>.\<close>

lemma getDistance_range:
  "(\<exists>r \<ge> 0. getDistance a b props = Fin r) \<or> getDistance a b props = PInf \<or>
   getDistance a b props = NaN"
proof -
  have sq: "(\<exists>r \<ge> 0. js_mul v v = Fin r) \<or> js_mul v v = PInf \<or> js_mul v v = NaN" for v
    by (cases v) simp_all
  have add: "(\<exists>r \<ge> 0. js_add u v = Fin r) \<or> js_add u v = PInf \<or> js_add u v = NaN"
    if "(\<exists>r \<ge> 0. u = Fin r) \<or> u = PInf \<or> u = NaN"
       "(\<exists>r \<ge> 0. v = Fin r) \<or> v = PInf \<or> v = NaN" for u v
    using that by (cases u; cases v) auto
  have root: "(\<exists>r \<ge> 0. js_sqrt u = Fin r) \<or> js_sqrt u = PInf \<or> js_sqrt u = NaN"
    if "(\<exists>r \<ge> 0. u = Fin r) \<or> u = PInf \<or> u = NaN" for u
    using that by (cases u) auto
  show ?thesis
    unfolding getDistance_def Let_def
    by (intro root add sq)
qed

lemma getDistance_same:
  assumes "clientX a = clientX b" "clientY a = clientY b"
  shows "getDistance a b PROPS_CLIENT_XY = Fin 0 \<or> getDistance a b PROPS_CLIENT_XY = NaN"
  using assms
  by (cases "clientX b"; cases "clientY b")
     (simp_all add: getDistance_def PROPS_CLIENT_XY_def Let_def js_sub_self)

section \<open>Array reads\<close>

lemma nth_js_eq: "nth_js as i = (if i < length as then Some (as ! i) else None)"
  by (induction as i rule: nth_js.induct) simp_all

lemma getScale_two:
  "getScale (s0 # s1 # ss) (e0 # e1 # es) =
     Inr (js_div (getDistance e0 e1 PROPS_CLIENT_XY) (getDistance s0 s1 PROPS_CLIENT_XY))"
  by (simp add: getScale_def)

lemma getRotation_two:
  "getRotation (s0 # s1 # ss) (e0 # e1 # es) =
     Inr (js_sub (getAngle e1 e0 PROPS_CLIENT_XY) (getAngle s1 s0 PROPS_CLIENT_XY))"
  by (simp add: getRotation_def)

lemma getScale_short:
  "length start < 2 \<or> length end' < 2 \<Longrightarrow> getScale start end' = Inl TypeError"
  by (auto simp add: getScale_def nth_js_eq)

section \<open>What a call assigns\<close>

lemma computeInputData_session:
  "fst (computeInputData rnd s d) =
     s\<lparr>firstInput := Some (case firstInput s of None \<Rightarrow> simpleCloneInputData rnd d | Some fi \<Rightarrow> fi),
       firstMultiple :=
         (if pointerCount d > 1 \<and> firstMultiple s = None
          then Some (simpleCloneInputData rnd d)
          else if pointerCount d = 1 then None
          else firstMultiple s)\<rparr>"
  by (simp add: computeInputData_def Let_def split: option.split sum.split)

lemma computeInputData_kept:
  "isFirst (fst (snd (computeInputData rnd s d))) = isFirst d"
  "isFinal (fst (snd (computeInputData rnd s d))) = isFinal d"
  "eventType (fst (snd (computeInputData rnd s d))) = eventType d"
  "inputData.pointers (fst (snd (computeInputData rnd s d))) = inputData.pointers d"
  by (simp_all add: computeInputData_def Let_def split: option.split sum.split)

text \<open>The last step of a call, by the baseline that the call leaves.\<close>

lemma computeInputData_last:
  "(scale (fst (snd (computeInputData rnd s d))), rotation (fst (snd (computeInputData rnd s d))),
    snd (snd (computeInputData rnd s d))) =
     (case firstMultiple (fst (computeInputData rnd s d)) of
        None \<Rightarrow> (Fin 1, Fin 0, None)
      | Some fm \<Rightarrow>
          (case getScale (snapshot.pointers fm) (inputData.pointers d) of
             Inl e \<Rightarrow> (scale d, rotation d, Some e)
           | Inr sc \<Rightarrow>
               (case getRotation (snapshot.pointers fm) (inputData.pointers d) of
                  Inl e \<Rightarrow> (sc, rotation d, Some e)
                | Inr rot \<Rightarrow> (sc, rot, None))))"
proof -
  define F where "F = (if pointerCount d > 1 \<and> firstMultiple s = None
          then Some (simpleCloneInputData rnd d)
          else if pointerCount d = 1 then None
          else firstMultiple s)"
  have fm: "firstMultiple (fst (computeInputData rnd s d)) = F"
    by (simp add: computeInputData_session F_def)
  show ?thesis
    unfolding fm
    unfolding computeInputData_def Let_def F_def [symmetric]
    by (cases F) (simp_all split: sum.split)
qed

lemma computeInputData_single:
  assumes "firstMultiple (fst (computeInputData rnd s d)) = None"
  shows "scale (fst (snd (computeInputData rnd s d))) = Fin 1"
    and "rotation (fst (snd (computeInputData rnd s d))) = Fin 0"
    and "snd (snd (computeInputData rnd s d)) = None"
proof -
  from assms computeInputData_last [of rnd s d]
  have "(scale (fst (snd (computeInputData rnd s d))), rotation (fst (snd (computeInputData rnd s d))),
    snd (snd (computeInputData rnd s d))) = (Fin 1, Fin 0, None)"
    by simp
  then show "scale (fst (snd (computeInputData rnd s d))) = Fin 1"
    and "rotation (fst (snd (computeInputData rnd s d))) = Fin 0"
    and "snd (snd (computeInputData rnd s d)) = None"
    by simp_all
qed

lemma computeInputData_two:
  assumes "firstMultiple (fst (computeInputData rnd s d)) = Some fm"
    and "snapshot.pointers fm = f0 # f1 # fs"
    and "inputData.pointers d = c0 # c1 # cs"
  shows "scale (fst (snd (computeInputData rnd s d))) =
        js_div (getDistance c0 c1 PROPS_CLIENT_XY) (getDistance f0 f1 PROPS_CLIENT_XY)"
    and "rotation (fst (snd (computeInputData rnd s d))) =
        js_sub (getAngle c1 c0 PROPS_CLIENT_XY) (getAngle f1 f0 PROPS_CLIENT_XY)"
    and "snd (snd (computeInputData rnd s d)) = None"
proof -
  from assms computeInputData_last [of rnd s d]
  have "(scale (fst (snd (computeInputData rnd s d))), rotation (fst (snd (computeInputData rnd s d))),
    snd (snd (computeInputData rnd s d))) =
      (js_div (getDistance c0 c1 PROPS_CLIENT_XY) (getDistance f0 f1 PROPS_CLIENT_XY),
       js_sub (getAngle c1 c0 PROPS_CLIENT_XY) (getAngle f1 f0 PROPS_CLIENT_XY), None)"
    by (simp add: getScale_two getRotation_two)
  then show "scale (fst (snd (computeInputData rnd s d))) =
        js_div (getDistance c0 c1 PROPS_CLIENT_XY) (getDistance f0 f1 PROPS_CLIENT_XY)"
    and "rotation (fst (snd (computeInputData rnd s d))) =
        js_sub (getAngle c1 c0 PROPS_CLIENT_XY) (getAngle f1 f0 PROPS_CLIENT_XY)"
    and "snd (snd (computeInputData rnd s d)) = None"
    by simp_all
qed

lemma computeInputData_short:
  assumes "firstMultiple (fst (computeInputData rnd s d)) = Some fm"
    and "length (snapshot.pointers fm) < 2 \<or> pointerCount d < 2"
  shows "snd (snd (computeInputData rnd s d)) = Some TypeError"
proof -
  from assms(2) have "getScale (snapshot.pointers fm) (inputData.pointers d) = Inl TypeError"
    by (rule getScale_short)
  with assms(1) computeInputData_last [of rnd s d]
  have "(scale (fst (snd (computeInputData rnd s d))), rotation (fst (snd (computeInputData rnd s d))),
    snd (snd (computeInputData rnd s d))) = (scale d, rotation d, Some TypeError)"
    by simp
  then show ?thesis by simp
qed

text \<open>The session that a call leaves does not depend on what the handler assigned.\<close>

lemma computeInputData_session_flags:
  "fst (computeInputData rnd s (d\<lparr>isFirst := a, isFinal := b, eventType := c\<rparr>)) =
     fst (computeInputData rnd s d)"
  by (simp add: computeInputData_session simpleCloneInputData_map split: option.split)

section \<open>What the handler assigns\<close>

lemma inputHandler_sample:
  "fst (snd (inputHandler rnd i et d)) =
     fst (snd (computeInputData rnd
       (if et = EVENT_START \<and> pointerCount d = length (changedPointers d)
        then empty_session else session i)
       (d\<lparr>isFirst := (et = EVENT_START \<and> pointerCount d = length (changedPointers d)),
          isFinal := (et = EVENT_END \<and> pointerCount d = length (changedPointers d)),
          eventType := et\<rparr>)))"
  by (simp add: inputHandler_def Let_def split_beta)

lemma inputHandler_session:
  "session (fst (inputHandler rnd i et d)) =
     fst (computeInputData rnd
       (if et = EVENT_START \<and> pointerCount d = length (changedPointers d)
        then empty_session else session i) d)"
  by (simp add: inputHandler_def Let_def split_beta computeInputData_session_flags)

lemma inputHandler_isFirst:
  "isFirst (fst (snd (inputHandler rnd i et d))) =
     (et = EVENT_START \<and> pointerCount d = length (changedPointers d))"
  by (simp add: inputHandler_sample computeInputData_kept)

lemma inputHandler_isFinal:
  "isFinal (fst (snd (inputHandler rnd i et d))) =
     (et = EVENT_END \<and> pointerCount d = length (changedPointers d))"
  by (simp add: inputHandler_sample computeInputData_kept)

section \<open>Runs of calls\<close>

lemma enrich_all_snoc:
  "enrich_all rnd s (ds @ [d]) = fst (computeInputData rnd (enrich_all rnd s ds) d)"
  by (induction ds arbitrary: s) simp_all

lemma firstInput_kept:
  "firstInput s = Some fi \<Longrightarrow> firstInput (enrich_all rnd s ds) = Some fi"
  by (induction ds arbitrary: s) (simp_all add: computeInputData_session)

lemma handle_all_firstInput_kept:
  assumes "firstInput (session i) = Some fi"
    and "\<forall>ev \<in> set evs.
      \<not> (fst ev = EVENT_START \<and> pointerCount (snd ev) = length (changedPointers (snd ev)))"
  shows "firstInput (session (handle_all rnd i evs)) = Some fi"
  using assms
proof (induction evs arbitrary: i)
  case Nil
  then show ?case by simp
next
  case (Cons ev evs)
  obtain et d where ev: "ev = (et, d)" by (cases ev)
  have "firstInput (session (fst (inputHandler rnd i et d))) = Some fi"
    using Cons.prems ev by (auto simp add: inputHandler_session computeInputData_session)
  then show ?case
    using Cons.IH [of "fst (inputHandler rnd i et d)"] Cons.prems(2) ev by simp
qed

lemma multi_since_single_snoc:
  "multi_since_single (ds @ [d]) =
     (if pointerCount d = 1 then []
      else multi_since_single ds @ (if pointerCount d > 1 then [d] else []))"
  by (simp add: multi_since_single_def)

lemma firstMultiple_trace:
  "firstMultiple (enrich_all rnd empty_session ds) =
     (case multi_since_single ds of [] \<Rightarrow> None | d # _ \<Rightarrow> Some (simpleCloneInputData rnd d))"
proof (induction ds rule: rev_induct)
  case Nil
  show ?case by (simp add: multi_since_single_def empty_session_def)
next
  case (snoc d ds)
  show ?case
    using snoc.IH
    by (simp add: enrich_all_snoc computeInputData_session multi_since_single_snoc
        split: list.splits)
qed

text \<open>
  The events of a gesture, a first event and then events that are not first, leave the
  instance with the session of the run of calls from the empty session.
\<close>

lemma handle_all_not_first:
  assumes "\<forall>ev \<in> set evs.
      \<not> (fst ev = EVENT_START \<and> pointerCount (snd ev) = length (changedPointers (snd ev)))"
  shows "session (handle_all rnd i evs) = enrich_all rnd (session i) (map snd evs)"
  using assms
proof (induction evs arbitrary: i)
  case Nil
  show ?case by simp
next
  case (Cons ev evs)
  obtain et d where ev: "ev = (et, d)" by (cases ev)
  have "session (fst (inputHandler rnd i et d)) = fst (computeInputData rnd (session i) d)"
    using Cons.prems ev by (auto simp add: inputHandler_session)
  then show ?case
    using Cons.IH [of "fst (inputHandler rnd i et d)"] Cons.prems ev by simp
qed

lemma handle_all_gesture:
  assumes "et = EVENT_START \<and> pointerCount d = length (changedPointers d)"
    and "\<forall>ev \<in> set evs.
      \<not> (fst ev = EVENT_START \<and> pointerCount (snd ev) = length (changedPointers (snd ev)))"
  shows "session (handle_all rnd i ((et, d) # evs)) =
    enrich_all rnd empty_session (d # map snd evs)"
  using assms(1) handle_all_not_first [OF assms(2), of rnd "fst (inputHandler rnd i et d)"]
  by (simp add: inputHandler_session)

text \<open>
  Some element counts more than one and no later element counts exactly one: how the
  property goes from a list to the list with one more element at its end.
\<close>

lemma since_single_snoc:
  fixes c :: "'a \<Rightarrow> nat"
  shows "(\<exists>i < length (ds @ [d]). c ((ds @ [d]) ! i) > 1 \<and>
           (\<forall>j. i < j \<and> j < length (ds @ [d]) \<longrightarrow> c ((ds @ [d]) ! j) \<noteq> 1)) =
         (c d \<noteq> 1 \<and> (c d > 1 \<or>
           (\<exists>i < length ds. c (ds ! i) > 1 \<and> (\<forall>j. i < j \<and> j < length ds \<longrightarrow> c (ds ! j) \<noteq> 1))))"
    (is "?L = ?R")
proof
  assume ?L
  then obtain i where i: "i < Suc (length ds)" "c ((ds @ [d]) ! i) > 1"
    and later: "\<forall>j. i < j \<and> j < Suc (length ds) \<longrightarrow> c ((ds @ [d]) ! j) \<noteq> 1"
    by force
  show ?R
  proof (cases "i = length ds")
    case True
    with i show ?thesis by simp
  next
    case False
    with i have il: "i < length ds" by simp
    have "c ((ds @ [d]) ! length ds) \<noteq> 1"
      using later il by blast
    then have d1: "c d \<noteq> 1" by simp
    have "c (ds ! j) \<noteq> 1" if "i < j" "j < length ds" for j
    proof -
      have "c ((ds @ [d]) ! j) \<noteq> 1" using later that by simp
      then show ?thesis using that by (simp add: nth_append)
    qed
    moreover have "c (ds ! i) > 1" using i il by (simp add: nth_append)
    ultimately show ?thesis using il d1 by blast
  qed
next
  assume r: ?R
  show ?L
  proof (cases "c d > 1")
    case True
    then show ?thesis by (intro exI [of _ "length ds"]) simp
  next
    case False
    with r obtain i where i: "i < length ds" "c (ds ! i) > 1"
      "\<forall>j. i < j \<and> j < length ds \<longrightarrow> c (ds ! j) \<noteq> 1"
      by blast
    have "c ((ds @ [d]) ! j) \<noteq> 1" if "i < j" "j < length (ds @ [d])" for j
    proof (cases "j < length ds")
      case True
      then show ?thesis using i that by (simp add: nth_append)
    next
      case False
      with that have "j = length ds" by simp
      then show ?thesis using r by simp
    qed
    moreover have "c ((ds @ [d]) ! i) > 1" using i by (simp add: nth_append)
    moreover have "i < length (ds @ [d])" using i by simp
    ultimately show ?thesis by blast
  qed
qed

lemma multi_since_single_nonempty:
  "(multi_since_single ds \<noteq> []) =
     (\<exists>i < length ds. pointerCount (ds ! i) > 1 \<and>
        (\<forall>j. i < j \<and> j < length ds \<longrightarrow> pointerCount (ds ! j) \<noteq> 1))"
proof (induction ds rule: rev_induct)
  case Nil
  show ?case by (simp add: multi_since_single_def)
next
  case (snoc d ds)
  show ?case
    unfolding since_single_snoc [where c = pointerCount] snoc.IH [symmetric]
    by (simp add: multi_since_single_snoc)
qed


lemma stored_multi_two:
  assumes "firstMultiple (enrich_all rnd empty_session ds) = Some m"
  shows "2 \<le> length (snapshot.pointers m)"
proof -
  from assms obtain d rest where ms: "multi_since_single ds = d # rest"
    and m: "m = simpleCloneInputData rnd d"
    by (auto simp add: firstMultiple_trace split: list.splits)
  have "d \<in> set (multi_since_single ds)"
    using ms by simp
  then have "1 < pointerCount d"
    by (simp add: multi_since_single_def)
  with m show ?thesis
    by (simp add: simpleCloneInputData_map Let_def)
qed

section \<open>The baseline for several pointers\<close>

text \<open>
  Claim C1. In a gesture, that is a run of calls from the empty session,
  \<^verbatim>\<open>firstMultiple\<close> is the clone of the oldest sample with more than one pointer since
  the last sample with exactly one pointer, and absent when there is no such sample; so
  it is present if and only if some sample had more than one pointer and no later
  sample had exactly one. In one call: a sample with more than one pointer sets an
  absent \<^verbatim>\<open>firstMultiple\<close> to its own clone and keeps a present one; a sample with
  exactly one pointer clears it; and a sample with several pointers after a sample with
  one pointer stores the clone of the later sample, whatever was stored before. The
  same holds for the session of an instance after the events of a gesture: an event
  classified first, then events not classified first (on whatever instance \<open>j\<close>).
\<close>

theorem firstMultiple_since_last_single:
  "firstMultiple (enrich_all rnd empty_session ds) =
     (case multi_since_single ds of [] \<Rightarrow> None | d # _ \<Rightarrow> Some (simpleCloneInputData rnd d)) \<and>
   (firstMultiple (enrich_all rnd empty_session ds) \<noteq> None) =
     (\<exists>i < length ds. pointerCount (ds ! i) > 1 \<and>
        (\<forall>j. i < j \<and> j < length ds \<longrightarrow> pointerCount (ds ! j) \<noteq> 1)) \<and>
   (pointerCount d > 1 \<and> firstMultiple s = None \<longrightarrow>
      firstMultiple (fst (computeInputData rnd s d)) = Some (simpleCloneInputData rnd d)) \<and>
   (pointerCount d > 1 \<and> firstMultiple s \<noteq> None \<longrightarrow>
      firstMultiple (fst (computeInputData rnd s d)) = firstMultiple s) \<and>
   (pointerCount d = 1 \<longrightarrow> firstMultiple (fst (computeInputData rnd s d)) = None) \<and>
   (pointerCount d1 = 1 \<and> pointerCount d2 > 1 \<longrightarrow>
      firstMultiple (enrich_all rnd s [d1, d2]) = Some (simpleCloneInputData rnd d2)) \<and>
   (isFirst (fst (snd (inputHandler rnd i et d0))) \<and>
    (\<forall>ev \<in> set evs. \<not> isFirst (fst (snd (inputHandler rnd j (fst ev) (snd ev))))) \<longrightarrow>
      firstMultiple (session (handle_all rnd i ((et, d0) # evs))) =
        (case multi_since_single (d0 # map snd evs) of
           [] \<Rightarrow> None
         | d # _ \<Rightarrow> Some (simpleCloneInputData rnd d)))"
proof -
  have present: "(firstMultiple (enrich_all rnd empty_session ds) \<noteq> None) =
     (multi_since_single ds \<noteq> [])"
    by (simp add: firstMultiple_trace split: list.split)
  have handled: "firstMultiple (session (handle_all rnd i ((et, d0) # evs))) =
        (case multi_since_single (d0 # map snd evs) of
           [] \<Rightarrow> None
         | d # _ \<Rightarrow> Some (simpleCloneInputData rnd d))"
    if "isFirst (fst (snd (inputHandler rnd i et d0)))"
      "\<forall>ev \<in> set evs. \<not> isFirst (fst (snd (inputHandler rnd j (fst ev) (snd ev))))"
  proof -
    have "session (handle_all rnd i ((et, d0) # evs)) =
        enrich_all rnd empty_session (d0 # map snd evs)"
      using that by (intro handle_all_gesture) (simp_all add: inputHandler_isFirst)
    then show ?thesis
      by (simp only: firstMultiple_trace)
  qed
  have calls: "(pointerCount d > 1 \<and> firstMultiple s = None \<longrightarrow>
      firstMultiple (fst (computeInputData rnd s d)) = Some (simpleCloneInputData rnd d)) \<and>
   (pointerCount d > 1 \<and> firstMultiple s \<noteq> None \<longrightarrow>
      firstMultiple (fst (computeInputData rnd s d)) = firstMultiple s) \<and>
   (pointerCount d = 1 \<longrightarrow> firstMultiple (fst (computeInputData rnd s d)) = None) \<and>
   (pointerCount d1 = 1 \<and> pointerCount d2 > 1 \<longrightarrow>
      firstMultiple (enrich_all rnd s [d1, d2]) = Some (simpleCloneInputData rnd d2))"
    by (simp add: computeInputData_session)
  show ?thesis
    unfolding present multi_since_single_nonempty
    using firstMultiple_trace [of rnd ds] calls handled
    by blast
qed

text \<open>
  Two pointers, then one, then two again: the baseline is the clone of the third
  sample, not of the first. After the first sample alone it is the clone of the first,
  which a second sample with two pointers keeps and a sample with one pointer clears.
\<close>

theorem firstMultiple_since_last_single_witness:
  "firstMultiple (enrich_all Math_round empty_session
      [rawSample [pointerAt 0 0, pointerAt 10 0] [pointerAt 10 0] (Fin 1),
       rawSample [pointerAt 0 0] [pointerAt 10 0] (Fin 2),
       rawSample [pointerAt 0 0, pointerAt 30 0] [pointerAt 30 0] (Fin 3)]) =
     Some (simpleCloneInputData Math_round
       (rawSample [pointerAt 0 0, pointerAt 30 0] [pointerAt 30 0] (Fin 3))) \<and>
   firstMultiple (fst (computeInputData Math_round empty_session
      (rawSample [pointerAt 0 0, pointerAt 10 0] [pointerAt 10 0] (Fin 1)))) =
     Some (simpleCloneInputData Math_round
       (rawSample [pointerAt 0 0, pointerAt 10 0] [pointerAt 10 0] (Fin 1))) \<and>
   firstMultiple (fst (computeInputData Math_round
      (fst (computeInputData Math_round empty_session
         (rawSample [pointerAt 0 0, pointerAt 10 0] [pointerAt 10 0] (Fin 1))))
      (rawSample [pointerAt 0 0, pointerAt 30 0] [pointerAt 30 0] (Fin 3)))) =
     Some (simpleCloneInputData Math_round
       (rawSample [pointerAt 0 0, pointerAt 10 0] [pointerAt 10 0] (Fin 1))) \<and>
   firstMultiple (fst (computeInputData Math_round
      (fst (computeInputData Math_round empty_session
         (rawSample [pointerAt 0 0, pointerAt 10 0] [pointerAt 10 0] (Fin 1))))
      (rawSample [pointerAt 0 0] [pointerAt 10 0] (Fin 2)))) = None \<and>
   firstMultiple (enrich_all Math_round
      (fst (computeInputData Math_round empty_session
         (rawSample [pointerAt 0 0, pointerAt 10 0] [pointerAt 10 0] (Fin 1))))
      [rawSample [pointerAt 0 0] [pointerAt 10 0] (Fin 2),
       rawSample [pointerAt 0 0, pointerAt 30 0] [pointerAt 30 0] (Fin 3)]) =
     Some (simpleCloneInputData Math_round
       (rawSample [pointerAt 0 0, pointerAt 30 0] [pointerAt 30 0] (Fin 3))) \<and>
   firstMultiple (session (handle_all Math_round \<lparr>session = empty_session\<rparr>
      [(EVENT_START, rawSample [pointerAt 0 0] [pointerAt 0 0] (Fin 0)),
       (EVENT_START, rawSample [pointerAt 0 0, pointerAt 30 0] [pointerAt 30 0] (Fin 3))])) =
     Some (simpleCloneInputData Math_round
       (rawSample [pointerAt 0 0, pointerAt 30 0] [pointerAt 30 0] (Fin 3)))"
proof -
  define A where "A = rawSample [pointerAt 0 0, pointerAt 10 0] [pointerAt 10 0] (Fin 1)"
  define B where "B = rawSample [pointerAt 0 0] [pointerAt 10 0] (Fin 2)"
  define C where "C = rawSample [pointerAt 0 0, pointerAt 30 0] [pointerAt 30 0] (Fin 3)"
  define s1 where "s1 = fst (computeInputData Math_round empty_session A)"
  have counts: "pointerCount A > 1" "pointerCount B = 1" "pointerCount C > 1"
    by (simp_all add: A_def B_def C_def rawSample_def)
  have since: "multi_since_single [A, B, C] = [C]"
    using counts by (simp add: multi_since_single_def)
  have empty: "firstMultiple empty_session = None"
    by (simp add: empty_session_def)
  have run: "firstMultiple (enrich_all Math_round empty_session [A, B, C]) =
      Some (simpleCloneInputData Math_round C)"
    using firstMultiple_since_last_single [of Math_round "[A, B, C]" A empty_session B C] since
    by simp
  have set: "firstMultiple s1 = Some (simpleCloneInputData Math_round A)"
    unfolding s1_def
    using firstMultiple_since_last_single [of Math_round "[A, B, C]" A empty_session B C]
      counts(1) empty
    by blast
  then have present: "firstMultiple s1 \<noteq> None"
    by simp
  have "firstMultiple (fst (computeInputData Math_round s1 C)) = firstMultiple s1"
    using firstMultiple_since_last_single [of Math_round "[A, B, C]" C s1 B C] counts(3) present
    by blast
  from this set have kept: "firstMultiple (fst (computeInputData Math_round s1 C)) =
      Some (simpleCloneInputData Math_round A)"
    by (rule trans)
  have cleared: "firstMultiple (fst (computeInputData Math_round s1 B)) = None"
    using firstMultiple_since_last_single [of Math_round "[A, B, C]" B s1 B C] counts(2)
    by blast
  have dip: "firstMultiple (enrich_all Math_round s1 [B, C]) =
      Some (simpleCloneInputData Math_round C)"
    using firstMultiple_since_last_single [of Math_round "[A, B, C]" B s1 B C] counts(2, 3)
    by blast
  define D where "D = rawSample [pointerAt 0 0] [pointerAt 0 0] (Fin 0)"
  have first: "isFirst (fst (snd (inputHandler Math_round \<lparr>session = empty_session\<rparr> EVENT_START D)))"
    by (simp add: inputHandler_isFirst D_def rawSample_def)
  have later: "\<forall>ev \<in> set [(EVENT_START, C)].
      \<not> isFirst (fst (snd (inputHandler Math_round \<lparr>session = empty_session\<rparr> (fst ev) (snd ev))))"
    by (simp add: inputHandler_isFirst C_def rawSample_def)
  have "pointerCount D = 1"
    by (simp add: D_def rawSample_def)
  then have since2: "multi_since_single (D # map snd [(EVENT_START, C)]) = [C]"
    using counts by (simp add: multi_since_single_def)
  have "firstMultiple (session (handle_all Math_round \<lparr>session = empty_session\<rparr>
      ((EVENT_START, D) # [(EVENT_START, C)]))) =
        (case multi_since_single (D # map snd [(EVENT_START, C)]) of
           [] \<Rightarrow> None
         | d # _ \<Rightarrow> Some (simpleCloneInputData Math_round d))"
    using firstMultiple_since_last_single [of Math_round "[A, B, C]" B s1 B C
        "\<lparr>session = empty_session\<rparr>" EVENT_START D "[(EVENT_START, C)]" "\<lparr>session = empty_session\<rparr>"]
      first later
    by blast
  then have handled: "firstMultiple (session (handle_all Math_round \<lparr>session = empty_session\<rparr>
      [(EVENT_START, D), (EVENT_START, C)])) = Some (simpleCloneInputData Math_round C)"
    unfolding since2 by simp
  from run set kept cleared dip handled show ?thesis
    unfolding s1_def A_def B_def C_def D_def by (intro conjI)
qed

section \<open>The offset center\<close>

text \<open>
  Claim C2. After a call, \<^verbatim>\<open>firstInput\<close> is present, and with the offset center taken
  from the session that the call leaves (the center of \<^verbatim>\<open>firstMultiple\<close> when that is
  present, the center of \<^verbatim>\<open>firstInput\<close> otherwise) and the center \<open>c\<close> of the current
  pointers: \<^verbatim>\<open>angle\<close>, \<^verbatim>\<open>distance\<close> and \<^verbatim>\<open>direction\<close> are those of the pair (offset
  center, \<open>c\<close>), \<^verbatim>\<open>deltaX\<close> and \<^verbatim>\<open>deltaY\<close> are \<open>c\<close> minus the offset center, and
  \<^verbatim>\<open>deltaTime\<close> is the time stamp of the sample minus that of \<^verbatim>\<open>firstInput\<close>, whichever
  baseline gives the offset center.
\<close>

theorem offset_center_fields:
  "\<exists>fi. firstInput (fst (computeInputData rnd s d)) = Some fi \<and>
     (let s' = fst (computeInputData rnd s d);
          d' = fst (snd (computeInputData rnd s d));
          offsetCenter = (case firstMultiple s' of
                            Some fm \<Rightarrow> snapshot.center fm
                          | None \<Rightarrow> snapshot.center fi);
          c = getCenter rnd (inputData.pointers d)
      in inputData.center d' = c \<and>
         angle d' = getAngle offsetCenter c PROPS_XY \<and>
         distance d' = getDistance offsetCenter c PROPS_XY \<and>
         direction d' = getDirection offsetCenter c \<and>
         deltaX d' = js_sub (x c) (x offsetCenter) \<and>
         deltaY d' = js_sub (y c) (y offsetCenter) \<and>
         inputData.timeStamp d' = event.timeStamp (srcEvent d) \<and>
         deltaTime d' = js_sub (event.timeStamp (srcEvent d)) (snapshot.timeStamp fi))"
proof -
  define F where "F = (if pointerCount d > 1 \<and> firstMultiple s = None
          then Some (simpleCloneInputData rnd d)
          else if pointerCount d = 1 then None
          else firstMultiple s)"
  define I where "I = (case firstInput s of None \<Rightarrow> simpleCloneInputData rnd d | Some fi \<Rightarrow> fi)"
  have fm: "firstMultiple (fst (computeInputData rnd s d)) = F"
    and fi: "firstInput (fst (computeInputData rnd s d)) = Some I"
    by (simp_all add: computeInputData_session F_def I_def)
  show ?thesis
    unfolding fm fi
    unfolding computeInputData_def Let_def F_def [symmetric] I_def [symmetric]
    by (cases F) (simp_all split: sum.split)
qed

text \<open>
  One pointer at (0, 0) at time 0, then at (10, 0) at time 100: the second sample is
  measured from the first.
\<close>

theorem offset_center_fields_witness:
  "deltaX (fst (snd (computeInputData Math_round
      (fst (computeInputData Math_round empty_session (rawSample [pointerAt 0 0] [pointerAt 0 0] (Fin 0))))
      (rawSample [pointerAt 10 0] [pointerAt 10 0] (Fin 100))))) = Fin 10 \<and>
   deltaY (fst (snd (computeInputData Math_round
      (fst (computeInputData Math_round empty_session (rawSample [pointerAt 0 0] [pointerAt 0 0] (Fin 0))))
      (rawSample [pointerAt 10 0] [pointerAt 10 0] (Fin 100))))) = Fin 0 \<and>
   deltaTime (fst (snd (computeInputData Math_round
      (fst (computeInputData Math_round empty_session (rawSample [pointerAt 0 0] [pointerAt 0 0] (Fin 0))))
      (rawSample [pointerAt 10 0] [pointerAt 10 0] (Fin 100))))) = Fin 100 \<and>
   distance (fst (snd (computeInputData Math_round
      (fst (computeInputData Math_round empty_session (rawSample [pointerAt 0 0] [pointerAt 0 0] (Fin 0))))
      (rawSample [pointerAt 10 0] [pointerAt 10 0] (Fin 100))))) = Fin 10 \<and>
   angle (fst (snd (computeInputData Math_round
      (fst (computeInputData Math_round empty_session (rawSample [pointerAt 0 0] [pointerAt 0 0] (Fin 0))))
      (rawSample [pointerAt 10 0] [pointerAt 10 0] (Fin 100))))) = Fin 0 \<and>
   direction (fst (snd (computeInputData Math_round
      (fst (computeInputData Math_round empty_session (rawSample [pointerAt 0 0] [pointerAt 0 0] (Fin 0))))
      (rawSample [pointerAt 10 0] [pointerAt 10 0] (Fin 100))))) = DIRECTION_RIGHT"
proof -
  define s1 where "s1 = fst (computeInputData Math_round empty_session
      (rawSample [pointerAt 0 0] [pointerAt 0 0] (Fin 0)))"
  have s1: "s1 = \<lparr>firstInput = Some \<lparr>snapshot.timeStamp = Fin 0, snapshot.pointers = [pointerAt 0 0],
        snapshot.center = \<lparr>x = Fin 0, y = Fin 0\<rparr>\<rparr>, firstMultiple = None\<rparr>"
    by (simp add: s1_def computeInputData_session empty_session_def rawSample_def
        simpleCloneInputData_map getCenter_map pointerAt_def)
  have c: "getCenter Math_round [pointerAt 10 0] = \<lparr>x = Fin 10, y = Fin 0\<rparr>"
    by (simp add: getCenter_map pointerAt_def)
  show ?thesis
    using offset_center_fields [of Math_round s1 "rawSample [pointerAt 10 0] [pointerAt 10 0] (Fin 100)"]
    unfolding s1_def [symmetric]
    by (simp add: computeInputData_session)
       (simp add: s1 rawSample_def c getDirection_real getDistance_def getAngle_def PROPS_XY_def
          sqrt_100 Let_def)
qed

section \<open>Scale and rotation\<close>

text \<open>
  Claim C3. When the call leaves \<^verbatim>\<open>firstMultiple\<close> absent, \<^verbatim>\<open>scale\<close> is 1 and \<^verbatim>\<open>rotation\<close>
  is 0. When it leaves \<^verbatim>\<open>firstMultiple\<close> present, with first two pointers \<open>f0\<close>, \<open>f1\<close>
  stored and first two pointers \<open>c0\<close>, \<open>c1\<close> in the sample, \<^verbatim>\<open>scale\<close> is the distance
  from \<open>c0\<close> to \<open>c1\<close> divided by the distance from \<open>f0\<close> to \<open>f1\<close>, and \<^verbatim>\<open>rotation\<close> is
  the angle from \<open>c1\<close> to \<open>c0\<close> minus the angle from \<open>f1\<close> to \<open>f0\<close>, all in client
  coordinates. Where one of the two lists has fewer than two pointers, the read of the
  missing pointer throws.
\<close>

theorem scale_and_rotation:
  "(firstMultiple (fst (computeInputData rnd s d)) = None \<longrightarrow>
      scale (fst (snd (computeInputData rnd s d))) = Fin 1 \<and>
      rotation (fst (snd (computeInputData rnd s d))) = Fin 0 \<and>
      snd (snd (computeInputData rnd s d)) = None) \<and>
   (firstMultiple (fst (computeInputData rnd s d)) = Some fm \<and>
    snapshot.pointers fm = f0 # f1 # fs \<and> inputData.pointers d = c0 # c1 # cs \<longrightarrow>
      scale (fst (snd (computeInputData rnd s d))) =
        js_div (getDistance c0 c1 PROPS_CLIENT_XY) (getDistance f0 f1 PROPS_CLIENT_XY) \<and>
      rotation (fst (snd (computeInputData rnd s d))) =
        js_sub (getAngle c1 c0 PROPS_CLIENT_XY) (getAngle f1 f0 PROPS_CLIENT_XY) \<and>
      snd (snd (computeInputData rnd s d)) = None) \<and>
   (firstMultiple (fst (computeInputData rnd s d)) = Some fm \<and>
    (length (snapshot.pointers fm) < 2 \<or> pointerCount d < 2) \<longrightarrow>
      snd (snd (computeInputData rnd s d)) = Some TypeError)"
  using computeInputData_single [of rnd s d] computeInputData_two [of rnd s d fm f0 f1 fs c0 c1 cs]
    computeInputData_short [of rnd s d fm]
  by blast

text \<open>
  Two pointers at (0, 0) and (10, 0), then at (0, 0) and (20, 0): the distance doubles
  and the angle stays. One pointer alone has scale 1 and rotation 0.
\<close>

theorem scale_and_rotation_witness:
  "scale (fst (snd (computeInputData Math_round
      (fst (computeInputData Math_round empty_session
         (rawSample [pointerAt 0 0, pointerAt 10 0] [pointerAt 0 0, pointerAt 10 0] (Fin 0))))
      (rawSample [pointerAt 0 0, pointerAt 20 0] [pointerAt 20 0] (Fin 100))))) = Fin 2 \<and>
   rotation (fst (snd (computeInputData Math_round
      (fst (computeInputData Math_round empty_session
         (rawSample [pointerAt 0 0, pointerAt 10 0] [pointerAt 0 0, pointerAt 10 0] (Fin 0))))
      (rawSample [pointerAt 0 0, pointerAt 20 0] [pointerAt 20 0] (Fin 100))))) = Fin 0 \<and>
   snd (snd (computeInputData Math_round
      (fst (computeInputData Math_round empty_session
         (rawSample [pointerAt 0 0, pointerAt 10 0] [pointerAt 0 0, pointerAt 10 0] (Fin 0))))
      (rawSample [pointerAt 0 0, pointerAt 20 0] [pointerAt 20 0] (Fin 100)))) = None \<and>
   scale (fst (snd (computeInputData Math_round empty_session
      (rawSample [pointerAt 3 4] [pointerAt 3 4] (Fin 0))))) = Fin 1 \<and>
   rotation (fst (snd (computeInputData Math_round empty_session
      (rawSample [pointerAt 3 4] [pointerAt 3 4] (Fin 0))))) = Fin 0 \<and>
   snd (snd (computeInputData Math_round
      (fst (computeInputData Math_round empty_session
         (rawSample [pointerAt 0 0, pointerAt 10 0] [pointerAt 0 0, pointerAt 10 0] (Fin 0))))
      (rawSample [] [pointerAt 0 0, pointerAt 10 0] (Fin 100)))) = Some TypeError"
proof -
  define s1 where "s1 = fst (computeInputData Math_round empty_session
      (rawSample [pointerAt 0 0, pointerAt 10 0] [pointerAt 0 0, pointerAt 10 0] (Fin 0)))"
  define fm where "fm = simpleCloneInputData Math_round
      (rawSample [pointerAt 0 0, pointerAt 10 0] [pointerAt 0 0, pointerAt 10 0] (Fin 0))"
  have s1: "firstMultiple s1 = Some fm"
    by (simp add: s1_def fm_def computeInputData_session empty_session_def rawSample_def)
  have fm: "snapshot.pointers fm = [pointerAt 0 0, pointerAt 10 0]"
    by (simp add: fm_def simpleCloneInputData_map rawSample_def pointerAt_def Let_def)
  define d2 where "d2 = rawSample [pointerAt 0 0, pointerAt 20 0] [pointerAt 20 0] (Fin 100)"
  define d0 where "d0 = rawSample [] [pointerAt 0 0, pointerAt 10 0] (Fin 100)"
  define d1 where "d1 = rawSample [pointerAt 3 4] [pointerAt 3 4] (Fin 0)"
  have h2: "firstMultiple (fst (computeInputData Math_round s1 d2)) = Some fm"
    and p2: "inputData.pointers d2 = [pointerAt 0 0, pointerAt 20 0]"
    by (simp_all add: computeInputData_session s1 d2_def rawSample_def)
  have "scale (fst (snd (computeInputData Math_round s1 d2))) =
        js_div (getDistance (pointerAt 0 0) (pointerAt 20 0) PROPS_CLIENT_XY)
          (getDistance (pointerAt 0 0) (pointerAt 10 0) PROPS_CLIENT_XY) \<and>
      rotation (fst (snd (computeInputData Math_round s1 d2))) =
        js_sub (getAngle (pointerAt 20 0) (pointerAt 0 0) PROPS_CLIENT_XY)
          (getAngle (pointerAt 10 0) (pointerAt 0 0) PROPS_CLIENT_XY) \<and>
      snd (snd (computeInputData Math_round s1 d2)) = None"
    using scale_and_rotation [of Math_round s1 d2 fm
        "pointerAt 0 0" "pointerAt 10 0" "[]" "pointerAt 0 0" "pointerAt 20 0" "[]"] h2 p2 fm
    by simp
  moreover have "js_div (getDistance (pointerAt 0 0) (pointerAt 20 0) PROPS_CLIENT_XY)
          (getDistance (pointerAt 0 0) (pointerAt 10 0) PROPS_CLIENT_XY) = Fin 2"
    by (simp add: getDistance_def PROPS_CLIENT_XY_def pointerAt_def Let_def sqrt_100 sqrt_400)
  moreover have "js_sub (getAngle (pointerAt 20 0) (pointerAt 0 0) PROPS_CLIENT_XY)
          (getAngle (pointerAt 10 0) (pointerAt 0 0) PROPS_CLIENT_XY) = Fin 0"
    by (simp add: getAngle_def PROPS_CLIENT_XY_def pointerAt_def Let_def)
  ultimately have two: "scale (fst (snd (computeInputData Math_round s1 d2))) = Fin 2 \<and>
      rotation (fst (snd (computeInputData Math_round s1 d2))) = Fin 0 \<and>
      snd (snd (computeInputData Math_round s1 d2)) = None"
    by simp
  have h1: "firstMultiple (fst (computeInputData Math_round empty_session d1)) = None"
    by (simp add: computeInputData_session d1_def rawSample_def)
  have one: "scale (fst (snd (computeInputData Math_round empty_session d1))) = Fin 1 \<and>
      rotation (fst (snd (computeInputData Math_round empty_session d1))) = Fin 0"
    using scale_and_rotation [of Math_round empty_session d1] h1
    by simp
  have h0: "firstMultiple (fst (computeInputData Math_round s1 d0)) = Some fm"
    and p0: "pointerCount d0 < 2"
    by (simp_all add: computeInputData_session s1 d0_def rawSample_def)
  have none: "snd (snd (computeInputData Math_round s1 d0)) = Some TypeError"
    using scale_and_rotation [of Math_round s1 d0 fm] h0 p0
    by simp
  from two one none show ?thesis
    unfolding s1_def d0_def d1_def d2_def by (intro conjI) simp_all
qed

section \<open>Direction\<close>

text \<open>
  Claim C4. With \<open>dx = p1.x - p2.x\<close> and \<open>dy = p1.y - p2.y\<close>: the direction is none
  when \<open>dx\<close> equals \<open>dy\<close>; otherwise, when \<open>|dx| >= |dy|\<close>, it is left for \<open>dx > 0\<close>
  and right for \<open>dx <= 0\<close>; otherwise it is up for \<open>dy > 0\<close> and down for \<open>dy <= 0\<close>.
  For points with finite coordinates this is the case distinction on the real
  differences, and the direction from a point to itself is none. The direction from
  (0, 0) to (10, 0) is right, and to (-10, 0) it is left.
\<close>

theorem direction_cases:
  "(let dx = js_sub (x p1) (x p2); dy = js_sub (y p1) (y p2)
    in (js_eq dx dy \<longrightarrow> getDirection p1 p2 = DIRECTION_NONE) \<and>
       (\<not> js_eq dx dy \<and> js_ge (js_abs dx) (js_abs dy) \<and> js_gt dx (Fin 0) \<longrightarrow>
          getDirection p1 p2 = DIRECTION_LEFT) \<and>
       (\<not> js_eq dx dy \<and> js_ge (js_abs dx) (js_abs dy) \<and> js_le dx (Fin 0) \<longrightarrow>
          getDirection p1 p2 = DIRECTION_RIGHT) \<and>
       (\<not> js_eq dx dy \<and> \<not> js_ge (js_abs dx) (js_abs dy) \<and> js_gt dy (Fin 0) \<longrightarrow>
          getDirection p1 p2 = DIRECTION_UP) \<and>
       (\<not> js_eq dx dy \<and> \<not> js_ge (js_abs dx) (js_abs dy) \<and> js_le dy (Fin 0) \<longrightarrow>
          getDirection p1 p2 = DIRECTION_DOWN)) \<and>
   getDirection \<lparr>x = Fin a1, y = Fin b1\<rparr> \<lparr>x = Fin a2, y = Fin b2\<rparr> =
     (if a1 - a2 = b1 - b2 then DIRECTION_NONE
      else if \<bar>a1 - a2\<bar> \<ge> \<bar>b1 - b2\<bar>
        then (if a1 - a2 > 0 then DIRECTION_LEFT else DIRECTION_RIGHT)
      else (if b1 - b2 > 0 then DIRECTION_UP else DIRECTION_DOWN)) \<and>
   (js_finite (x p) \<and> js_finite (y p) \<longrightarrow> getDirection p p = DIRECTION_NONE) \<and>
   getDirection \<lparr>x = Fin 0, y = Fin 0\<rparr> \<lparr>x = Fin 10, y = Fin 0\<rparr> = DIRECTION_RIGHT \<and>
   getDirection \<lparr>x = Fin 0, y = Fin 0\<rparr> \<lparr>x = Fin (- 10), y = Fin 0\<rparr> = DIRECTION_LEFT"
proof -
  have same: "getDirection p p = DIRECTION_NONE" if "js_finite (x p)" "js_finite (y p)"
    using that by (simp add: getDirection_def Let_def js_sub_self js_eq_def)
  show ?thesis
    unfolding getDirection_real
    by (simp add: same) (simp add: getDirection_def Let_def js_le_not_gt)
qed

theorem direction_cases_witness:
  "getDirection \<lparr>x = Fin 3, y = Fin 4\<rparr> \<lparr>x = Fin 3, y = Fin 4\<rparr> = DIRECTION_NONE \<and>
   getDirection \<lparr>x = Fin 5, y = Fin 5\<rparr> \<lparr>x = Fin 2, y = Fin 2\<rparr> = DIRECTION_NONE \<and>
   getDirection \<lparr>x = Fin 0, y = Fin 0\<rparr> \<lparr>x = Fin 1, y = Fin 10\<rparr> = DIRECTION_DOWN \<and>
   getDirection \<lparr>x = Fin 0, y = Fin 10\<rparr> \<lparr>x = Fin 1, y = Fin 0\<rparr> = DIRECTION_UP \<and>
   getDirection \<lparr>x = Fin 7, y = Fin 0\<rparr> \<lparr>x = Fin 1, y = Fin 2\<rparr> = DIRECTION_LEFT \<and>
   getDirection \<lparr>x = Fin 1, y = Fin 0\<rparr> \<lparr>x = Fin 7, y = Fin 2\<rparr> = DIRECTION_RIGHT"
proof -
  have none: "getDirection \<lparr>x = Fin 3, y = Fin 4\<rparr> \<lparr>x = Fin 3, y = Fin 4\<rparr> = DIRECTION_NONE"
    using direction_cases [where p = "\<lparr>x = Fin 3, y = Fin 4\<rparr>"] by simp
  have diag: "getDirection \<lparr>x = Fin 5, y = Fin 5\<rparr> \<lparr>x = Fin 2, y = Fin 2\<rparr> = DIRECTION_NONE"
    using direction_cases [of "\<lparr>x = Fin 5, y = Fin 5\<rparr>" "\<lparr>x = Fin 2, y = Fin 2\<rparr>"]
    by (simp add: Let_def js_eq_def)
  have down: "getDirection \<lparr>x = Fin 0, y = Fin 0\<rparr> \<lparr>x = Fin 1, y = Fin 10\<rparr> = DIRECTION_DOWN"
    using direction_cases [of "\<lparr>x = Fin 0, y = Fin 0\<rparr>" "\<lparr>x = Fin 1, y = Fin 10\<rparr>"]
    by (simp add: Let_def js_eq_def js_ge_def js_gt_def js_le_def)
  have up: "getDirection \<lparr>x = Fin 0, y = Fin 10\<rparr> \<lparr>x = Fin 1, y = Fin 0\<rparr> = DIRECTION_UP"
    using direction_cases [of "\<lparr>x = Fin 0, y = Fin 10\<rparr>" "\<lparr>x = Fin 1, y = Fin 0\<rparr>"]
    by (simp add: Let_def js_eq_def js_ge_def js_gt_def js_le_def)
  have left: "getDirection \<lparr>x = Fin 7, y = Fin 0\<rparr> \<lparr>x = Fin 1, y = Fin 2\<rparr> = DIRECTION_LEFT"
    using direction_cases [of "\<lparr>x = Fin 7, y = Fin 0\<rparr>" "\<lparr>x = Fin 1, y = Fin 2\<rparr>"]
    by (simp add: Let_def js_eq_def js_ge_def js_gt_def js_le_def)
  have right: "getDirection \<lparr>x = Fin 1, y = Fin 0\<rparr> \<lparr>x = Fin 7, y = Fin 2\<rparr> = DIRECTION_RIGHT"
    using direction_cases [of "\<lparr>x = Fin 1, y = Fin 0\<rparr>" "\<lparr>x = Fin 7, y = Fin 2\<rparr>"]
    by (simp add: Let_def js_eq_def js_ge_def js_gt_def js_le_def)
  from none diag down up left right show ?thesis by (intro conjI)
qed

section \<open>First and final samples\<close>

text \<open>
  Claim C5. The handler sets \<^verbatim>\<open>isFirst\<close> to true exactly when the event type is
  \<^verbatim>\<open>EVENT_START\<close> and the sample has as many pointers as changed pointers, and
  \<^verbatim>\<open>isFinal\<close> to true exactly when the event type is \<^verbatim>\<open>EVENT_END\<close> and the two counts
  are equal. An event of type \<^verbatim>\<open>EVENT_CANCEL\<close> never gets \<^verbatim>\<open>isFinal\<close> true.
\<close>

theorem lifecycle_flags:
  "isFirst (fst (snd (inputHandler rnd i et d))) =
     (et = EVENT_START \<and> pointerCount d = length (changedPointers d)) \<and>
   isFinal (fst (snd (inputHandler rnd i et d))) =
     (et = EVENT_END \<and> pointerCount d = length (changedPointers d)) \<and>
   \<not> isFinal (fst (snd (inputHandler rnd i EVENT_CANCEL d)))"
  by (simp add: inputHandler_sample computeInputData_kept EVENT_CANCEL_def EVENT_END_def)

section \<open>The session of a gesture\<close>

text \<open>
  The last clause of claim C6, that a sample with \<^verbatim>\<open>isFinal\<close> true does not clear the
  baselines of the session, fails for \<^verbatim>\<open>firstMultiple\<close>. One pointer goes down, a second
  goes down, the second goes up (the adapter still lists both), the first goes up: the
  last sample is final and has exactly one pointer, and the call clears the
  \<^verbatim>\<open>firstMultiple\<close> that the session held.
\<close>

theorem final_sample_clears_firstMultiple:
  "isFinal (fst (snd (inputHandler Math_round
      (handle_all Math_round \<lparr>session = empty_session\<rparr>
        [(EVENT_START, rawSample [pointerAt 0 0] [pointerAt 0 0] (Fin 0)),
         (EVENT_START, rawSample [pointerAt 0 0, pointerAt 10 0] [pointerAt 10 0] (Fin 1)),
         (EVENT_END, rawSample [pointerAt 0 0, pointerAt 10 0] [pointerAt 10 0] (Fin 2))])
      EVENT_END (rawSample [pointerAt 0 0] [pointerAt 0 0] (Fin 3))))) \<and>
   firstMultiple (session
      (handle_all Math_round \<lparr>session = empty_session\<rparr>
        [(EVENT_START, rawSample [pointerAt 0 0] [pointerAt 0 0] (Fin 0)),
         (EVENT_START, rawSample [pointerAt 0 0, pointerAt 10 0] [pointerAt 10 0] (Fin 1)),
         (EVENT_END, rawSample [pointerAt 0 0, pointerAt 10 0] [pointerAt 10 0] (Fin 2))])) =
     Some (simpleCloneInputData Math_round
       (rawSample [pointerAt 0 0, pointerAt 10 0] [pointerAt 10 0] (Fin 1))) \<and>
   firstMultiple (session (fst (inputHandler Math_round
      (handle_all Math_round \<lparr>session = empty_session\<rparr>
        [(EVENT_START, rawSample [pointerAt 0 0] [pointerAt 0 0] (Fin 0)),
         (EVENT_START, rawSample [pointerAt 0 0, pointerAt 10 0] [pointerAt 10 0] (Fin 1)),
         (EVENT_END, rawSample [pointerAt 0 0, pointerAt 10 0] [pointerAt 10 0] (Fin 2))])
      EVENT_END (rawSample [pointerAt 0 0] [pointerAt 0 0] (Fin 3))))) = None"
  by (simp add: inputHandler_isFinal inputHandler_session computeInputData_session
      empty_session_def rawSample_def EVENT_START_def EVENT_END_def)

text \<open>
  Claim C6, amended. The call works on a fresh empty session exactly when the sample is
  classified \<^verbatim>\<open>isFirst\<close>, and on the session of the instance otherwise. A first sample
  sets \<^verbatim>\<open>firstInput\<close> to its clone; a sample that is not first keeps the \<^verbatim>\<open>firstInput\<close>
  that the session has; so \<^verbatim>\<open>firstInput\<close> is the clone of the first sample after any
  events of the gesture (events not classified first, on whatever instance \<open>j\<close>). A
  sample with \<^verbatim>\<open>isFinal\<close> true is not first: the session is not reset, \<^verbatim>\<open>firstInput\<close>
  stays, and \<^verbatim>\<open>firstMultiple\<close>, when present, stays unless the sample has exactly one
  pointer, which clears it as for any sample.
\<close>

theorem session_reset_only_on_first:
  "session (fst (inputHandler rnd i et d)) =
     fst (computeInputData rnd
       (if isFirst (fst (snd (inputHandler rnd i et d))) then empty_session else session i) d) \<and>
   (isFirst (fst (snd (inputHandler rnd i et d))) \<longrightarrow>
      firstInput (session (fst (inputHandler rnd i et d))) = Some (simpleCloneInputData rnd d)) \<and>
   (\<not> isFirst (fst (snd (inputHandler rnd i et d))) \<and> firstInput (session i) = Some fi \<longrightarrow>
      firstInput (session (fst (inputHandler rnd i et d))) = Some fi) \<and>
   (isFirst (fst (snd (inputHandler rnd i et d))) \<and>
    (\<forall>ev \<in> set evs. \<not> isFirst (fst (snd (inputHandler rnd j (fst ev) (snd ev))))) \<longrightarrow>
      firstInput (session (handle_all rnd i ((et, d) # evs))) = Some (simpleCloneInputData rnd d)) \<and>
   (isFinal (fst (snd (inputHandler rnd i et d))) \<longrightarrow>
      \<not> isFirst (fst (snd (inputHandler rnd i et d))) \<and>
      session (fst (inputHandler rnd i et d)) = fst (computeInputData rnd (session i) d) \<and>
      (firstInput (session i) = Some fi \<longrightarrow>
         firstInput (session (fst (inputHandler rnd i et d))) = Some fi) \<and>
      (firstMultiple (session i) = Some fm \<longrightarrow>
         firstMultiple (session (fst (inputHandler rnd i et d))) =
           (if pointerCount d = 1 then None else Some fm)))"
proof -
  have gesture: "firstInput (session (handle_all rnd i ((et, d) # evs))) = Some (simpleCloneInputData rnd d)"
    if "isFirst (fst (snd (inputHandler rnd i et d)))"
      "\<forall>ev \<in> set evs. \<not> isFirst (fst (snd (inputHandler rnd j (fst ev) (snd ev))))"
  proof -
    have "firstInput (session (fst (inputHandler rnd i et d))) = Some (simpleCloneInputData rnd d)"
      using that(1)
      by (simp add: inputHandler_isFirst inputHandler_session computeInputData_session empty_session_def)
    moreover have "\<forall>ev \<in> set evs.
        \<not> (fst ev = EVENT_START \<and> pointerCount (snd ev) = length (changedPointers (snd ev)))"
      using that(2) by (simp add: inputHandler_isFirst)
    ultimately show ?thesis
      by (simp add: handle_all_firstInput_kept)
  qed
  have final: "\<not> (et = EVENT_START \<and> et = EVENT_END)"
    by (simp add: EVENT_START_def EVENT_END_def)
  show ?thesis
    using gesture final
    by (auto simp add: inputHandler_isFirst inputHandler_isFinal inputHandler_session
        computeInputData_session empty_session_def)
qed

text \<open>
  A first sample replaces the \<^verbatim>\<open>firstInput\<close> of an earlier gesture and a move keeps it;
  the gesture of the example keeps the \<^verbatim>\<open>firstInput\<close> of its first sample; and a final
  sample with two pointers leaves both baselines as they are.
\<close>

theorem session_reset_only_on_first_witness:
  "firstInput (session (fst (inputHandler Math_round
      \<lparr>session = \<lparr>firstInput = Some (simpleCloneInputData Math_round
                      (rawSample [pointerAt 0 0] [pointerAt 0 0] (Fin 0))),
                  firstMultiple = None\<rparr>\<rparr>
      EVENT_START (rawSample [pointerAt 7 7] [pointerAt 7 7] (Fin 9))))) =
     Some (simpleCloneInputData Math_round (rawSample [pointerAt 7 7] [pointerAt 7 7] (Fin 9))) \<and>
   firstInput (session (fst (inputHandler Math_round
      \<lparr>session = \<lparr>firstInput = Some (simpleCloneInputData Math_round
                      (rawSample [pointerAt 0 0] [pointerAt 0 0] (Fin 0))),
                  firstMultiple = None\<rparr>\<rparr>
      EVENT_MOVE (rawSample [pointerAt 7 7] [pointerAt 7 7] (Fin 9))))) =
     Some (simpleCloneInputData Math_round (rawSample [pointerAt 0 0] [pointerAt 0 0] (Fin 0))) \<and>
   firstInput (session (handle_all Math_round \<lparr>session = empty_session\<rparr>
        [(EVENT_START, rawSample [pointerAt 0 0] [pointerAt 0 0] (Fin 0)),
         (EVENT_START, rawSample [pointerAt 0 0, pointerAt 10 0] [pointerAt 10 0] (Fin 1)),
         (EVENT_END, rawSample [pointerAt 0 0, pointerAt 10 0] [pointerAt 10 0] (Fin 2))])) =
     Some (simpleCloneInputData Math_round (rawSample [pointerAt 0 0] [pointerAt 0 0] (Fin 0))) \<and>
   isFinal (fst (snd (inputHandler Math_round
      \<lparr>session = \<lparr>firstInput = Some (simpleCloneInputData Math_round
                      (rawSample [pointerAt 0 0] [pointerAt 0 0] (Fin 0))),
                  firstMultiple = Some (simpleCloneInputData Math_round
                      (rawSample [pointerAt 0 0, pointerAt 10 0] [pointerAt 10 0] (Fin 1)))\<rparr>\<rparr>
      EVENT_END
      (rawSample [pointerAt 0 0, pointerAt 10 0] [pointerAt 0 0, pointerAt 10 0] (Fin 2))))) \<and>
   session (fst (inputHandler Math_round
      \<lparr>session = \<lparr>firstInput = Some (simpleCloneInputData Math_round
                      (rawSample [pointerAt 0 0] [pointerAt 0 0] (Fin 0))),
                  firstMultiple = Some (simpleCloneInputData Math_round
                      (rawSample [pointerAt 0 0, pointerAt 10 0] [pointerAt 10 0] (Fin 1)))\<rparr>\<rparr>
      EVENT_END
      (rawSample [pointerAt 0 0, pointerAt 10 0] [pointerAt 0 0, pointerAt 10 0] (Fin 2)))) =
     \<lparr>firstInput = Some (simpleCloneInputData Math_round
                      (rawSample [pointerAt 0 0] [pointerAt 0 0] (Fin 0))),
      firstMultiple = Some (simpleCloneInputData Math_round
                      (rawSample [pointerAt 0 0, pointerAt 10 0] [pointerAt 10 0] (Fin 1)))\<rparr>"
proof -
  define d1 where "d1 = rawSample [pointerAt 0 0] [pointerAt 0 0] (Fin 0)"
  define d2 where "d2 = rawSample [pointerAt 0 0, pointerAt 10 0] [pointerAt 10 0] (Fin 1)"
  define d3 where "d3 = rawSample [pointerAt 0 0, pointerAt 10 0] [pointerAt 10 0] (Fin 2)"
  define d4 where "d4 = rawSample [pointerAt 0 0, pointerAt 10 0] [pointerAt 0 0, pointerAt 10 0] (Fin 2)"
  define i3 where "i3 = \<lparr>session = \<lparr>firstInput = Some (simpleCloneInputData Math_round d1),
      firstMultiple = Some (simpleCloneInputData Math_round d2)\<rparr>\<rparr>"
  define d5 where "d5 = rawSample [pointerAt 7 7] [pointerAt 7 7] (Fin 9)"
  define i1 where "i1 = \<lparr>session = \<lparr>firstInput = Some (simpleCloneInputData Math_round d1),
      firstMultiple = None\<rparr>\<rparr>"
  have fi1: "firstInput (session i1) = Some (simpleCloneInputData Math_round d1)"
    by (simp add: i1_def)
  have again: "isFirst (fst (snd (inputHandler Math_round i1 EVENT_START d5)))"
    and move: "\<not> isFirst (fst (snd (inputHandler Math_round i1 EVENT_MOVE d5)))"
    by (simp_all add: inputHandler_isFirst d5_def rawSample_def EVENT_START_def EVENT_MOVE_def)
  have fresh: "firstInput (session (fst (inputHandler Math_round i1 EVENT_START d5))) =
      Some (simpleCloneInputData Math_round d5)"
    using session_reset_only_on_first [of Math_round i1 EVENT_START d5] again
    by blast
  have same: "firstInput (session (fst (inputHandler Math_round i1 EVENT_MOVE d5))) =
      Some (simpleCloneInputData Math_round d1)"
    using session_reset_only_on_first [of Math_round i1 EVENT_MOVE d5
        "simpleCloneInputData Math_round d1"] move fi1
    by blast
  have first: "isFirst (fst (snd (inputHandler Math_round \<lparr>session = empty_session\<rparr> EVENT_START d1)))"
    by (simp add: inputHandler_isFirst d1_def rawSample_def)
  have later: "\<forall>ev \<in> set [(EVENT_START, d2), (EVENT_END, d3)].
      \<not> isFirst (fst (snd (inputHandler Math_round \<lparr>session = empty_session\<rparr> (fst ev) (snd ev))))"
    by (simp add: inputHandler_isFirst d2_def d3_def rawSample_def EVENT_START_def EVENT_END_def)
  have final: "isFinal (fst (snd (inputHandler Math_round i3 EVENT_END d4)))"
    by (simp add: inputHandler_isFinal d4_def rawSample_def)
  have fi3: "firstInput (session i3) = Some (simpleCloneInputData Math_round d1)"
    and fm3: "firstMultiple (session i3) = Some (simpleCloneInputData Math_round d2)"
    by (simp_all add: i3_def)
  have count: "pointerCount d4 \<noteq> 1"
    by (simp add: d4_def rawSample_def)
  have gesture: "firstInput (session (handle_all Math_round \<lparr>session = empty_session\<rparr>
      [(EVENT_START, d1), (EVENT_START, d2), (EVENT_END, d3)])) = Some (simpleCloneInputData Math_round d1)"
    using session_reset_only_on_first [of Math_round "\<lparr>session = empty_session\<rparr>" EVENT_START d1
        _ "[(EVENT_START, d2), (EVENT_END, d3)]" "\<lparr>session = empty_session\<rparr>"] first later
    by blast
  from final
    session_reset_only_on_first [of Math_round i3 EVENT_END d4
        "simpleCloneInputData Math_round d1" "[]" i3 "simpleCloneInputData Math_round d2"]
  have step: "(firstInput (session i3) = Some (simpleCloneInputData Math_round d1) \<longrightarrow>
         firstInput (session (fst (inputHandler Math_round i3 EVENT_END d4))) =
           Some (simpleCloneInputData Math_round d1)) \<and>
      (firstMultiple (session i3) = Some (simpleCloneInputData Math_round d2) \<longrightarrow>
         firstMultiple (session (fst (inputHandler Math_round i3 EVENT_END d4))) =
           (if pointerCount d4 = 1 then None else Some (simpleCloneInputData Math_round d2)))"
    by blast
  from step fi3 have fi4: "firstInput (session (fst (inputHandler Math_round i3 EVENT_END d4))) =
      Some (simpleCloneInputData Math_round d1)"
    by blast
  from step fm3 have "firstMultiple (session (fst (inputHandler Math_round i3 EVENT_END d4))) =
      (if pointerCount d4 = 1 then None else Some (simpleCloneInputData Math_round d2))"
    by blast
  with count have fm4: "firstMultiple (session (fst (inputHandler Math_round i3 EVENT_END d4))) =
      Some (simpleCloneInputData Math_round d2)"
    by (simp only: if_False)
  from fi4 fm4
  have "firstInput (session (fst (inputHandler Math_round i3 EVENT_END d4))) =
        Some (simpleCloneInputData Math_round d1) \<and>
      firstMultiple (session (fst (inputHandler Math_round i3 EVENT_END d4))) =
        Some (simpleCloneInputData Math_round d2)"
    by (rule conjI)
  then have kept: "session (fst (inputHandler Math_round i3 EVENT_END d4)) =
      \<lparr>firstInput = Some (simpleCloneInputData Math_round d1),
       firstMultiple = Some (simpleCloneInputData Math_round d2)\<rparr>"
    by (cases "session (fst (inputHandler Math_round i3 EVENT_END d4))") simp
  from fresh same gesture final kept show ?thesis
    unfolding d1_def d2_def d3_def d4_def d5_def i1_def i3_def by (intro conjI)
qed

section \<open>Center\<close>

text \<open>
  Claim C7. The center of one pointer is its client coordinates, rounded. The center of
  more than one pointer, with finite coordinates \<open>cs\<close>, is the rounded middle of the
  bounding box, \<open>((min_x + max_x) / 2, (min_y + max_y) / 2)\<close>. The center of a list
  and of any permutation of it are equal.
\<close>

theorem center_of_pointers:
  "getCenter rnd [p] = \<lparr>x = rnd (clientX p), y = rnd (clientY p)\<rparr> \<and>
   (1 < length cs \<longrightarrow>
      getCenter rnd (map (\<lambda>(a, b). pointerAt a b) cs) =
        \<lparr>x = rnd (Fin ((Min (fst ` set cs) + Max (fst ` set cs)) / 2)),
         y = rnd (Fin ((Min (snd ` set cs) + Max (snd ` set cs)) / 2))\<rparr>) \<and>
   (mset ps = mset qs \<longrightarrow> getCenter rnd ps = getCenter rnd qs)"
proof (intro conjI impI)
  show "getCenter rnd [p] = \<lparr>x = rnd (clientX p), y = rnd (clientY p)\<rparr>"
    by (simp add: getCenter_map)
qed (rule getCenter_box, assumption, rule getCenter_mset, assumption)

text \<open>
  Three pointers, two of them at (0, 0) and one at (10, 4): the center is the middle
  (5, 2) of the box, not the mean of the three, in either order. One pointer at
  (3.5, -2.5) gives (4, -2).
\<close>

theorem center_of_pointers_witness:
  "getCenter Math_round [pointerAt 0 0, pointerAt 0 0, pointerAt 10 4] = \<lparr>x = Fin 5, y = Fin 2\<rparr> \<and>
   getCenter Math_round [pointerAt 10 4, pointerAt 0 0, pointerAt 0 0] = \<lparr>x = Fin 5, y = Fin 2\<rparr> \<and>
   getCenter Math_round [pointerAt (7 / 2) (- 5 / 2)] = \<lparr>x = Fin 4, y = Fin (- 2)\<rparr>"
proof -
  note c = center_of_pointers [of Math_round "pointerAt (7 / 2) (- 5 / 2)" "[(0, 0), (0, 0), (10, 4)]"
      "[pointerAt 0 0, pointerAt 0 0, pointerAt 10 4]" "[pointerAt 10 4, pointerAt 0 0, pointerAt 0 0]"]
  have one: "getCenter Math_round [pointerAt (7 / 2) (- 5 / 2)] = \<lparr>x = Fin 4, y = Fin (- 2)\<rparr>"
    using c [THEN conjunct1] by (simp add: pointerAt_def)
  have box: "getCenter Math_round [pointerAt 0 0, pointerAt 0 0, pointerAt 10 4] =
      \<lparr>x = Fin 5, y = Fin 2\<rparr>"
    using c [THEN conjunct2, THEN conjunct1] by simp
  have "mset [pointerAt 0 0, pointerAt 0 0, pointerAt 10 4] =
      mset [pointerAt 10 4, pointerAt 0 0, pointerAt 0 0]"
    by simp
  with c [THEN conjunct2, THEN conjunct2]
  have perm: "getCenter Math_round [pointerAt 0 0, pointerAt 0 0, pointerAt 10 4] =
      getCenter Math_round [pointerAt 10 4, pointerAt 0 0, pointerAt 0 0]"
    by (rule mp)
  from perm box have "getCenter Math_round [pointerAt 10 4, pointerAt 0 0, pointerAt 0 0] =
      \<lparr>x = Fin 5, y = Fin 2\<rparr>"
    by (rule trans [OF sym])
  with one box show ?thesis by (intro conjI)
qed

section \<open>A zero distance at the start\<close>

text \<open>
  Claim C8. When the two pointers of the start pair have equal client coordinates,
  \<^verbatim>\<open>getScale\<close> divides by the zero distance and returns a value that is not finite,
  \<open>+Infinity\<close> or \<open>NaN\<close>, without an error. A call whose \<^verbatim>\<open>firstMultiple\<close> has such
  first two pointers assigns that value to \<^verbatim>\<open>scale\<close> and does not throw.
\<close>

theorem zero_start_distance:
  "(clientX s0 = clientX s1 \<and> clientY s0 = clientY s1 \<longrightarrow>
      (\<exists>v. getScale (s0 # s1 # ss) (e0 # e1 # es) = Inr v \<and> \<not> js_finite v \<and>
           (v = PInf \<or> v = NaN))) \<and>
   (firstMultiple (fst (computeInputData rnd s d)) = Some fm \<and>
    snapshot.pointers fm = f0 # f1 # fs \<and> clientX f0 = clientX f1 \<and> clientY f0 = clientY f1 \<and>
    inputData.pointers d = c0 # c1 # cs \<longrightarrow>
      snd (snd (computeInputData rnd s d)) = None \<and>
      \<not> js_finite (scale (fst (snd (computeInputData rnd s d)))) \<and>
      (scale (fst (snd (computeInputData rnd s d))) = PInf \<or>
       scale (fst (snd (computeInputData rnd s d))) = NaN))"
proof (intro conjI impI)
  assume eq: "clientX s0 = clientX s1 \<and> clientY s0 = clientY s1"
  have "js_div (getDistance e0 e1 PROPS_CLIENT_XY) (getDistance s0 s1 PROPS_CLIENT_XY) = PInf \<or>
      js_div (getDistance e0 e1 PROPS_CLIENT_XY) (getDistance s0 s1 PROPS_CLIENT_XY) = NaN"
    using eq by (intro js_div_by_zero getDistance_range getDistance_same) simp_all
  then show "\<exists>v. getScale (s0 # s1 # ss) (e0 # e1 # es) = Inr v \<and> \<not> js_finite v \<and>
      (v = PInf \<or> v = NaN)"
    unfolding getScale_two by auto
next
  assume a: "firstMultiple (fst (computeInputData rnd s d)) = Some fm \<and>
    snapshot.pointers fm = f0 # f1 # fs \<and> clientX f0 = clientX f1 \<and> clientY f0 = clientY f1 \<and>
    inputData.pointers d = c0 # c1 # cs"
  then have sc: "scale (fst (snd (computeInputData rnd s d))) =
        js_div (getDistance c0 c1 PROPS_CLIENT_XY) (getDistance f0 f1 PROPS_CLIENT_XY)"
    and err: "snd (snd (computeInputData rnd s d)) = None"
    using computeInputData_two [of rnd s d fm f0 f1 fs c0 c1 cs] by simp_all
  have v: "js_div (getDistance c0 c1 PROPS_CLIENT_XY) (getDistance f0 f1 PROPS_CLIENT_XY) = PInf \<or>
      js_div (getDistance c0 c1 PROPS_CLIENT_XY) (getDistance f0 f1 PROPS_CLIENT_XY) = NaN"
    using a by (intro js_div_by_zero getDistance_range getDistance_same) simp_all
  show "snd (snd (computeInputData rnd s d)) = None"
    by (rule err)
  show "scale (fst (snd (computeInputData rnd s d))) = PInf \<or>
      scale (fst (snd (computeInputData rnd s d))) = NaN"
    unfolding sc by (rule v)
  then show "\<not> js_finite (scale (fst (snd (computeInputData rnd s d))))"
    by auto
qed

text \<open>
  Two pointers on the same pixel are the baseline; the next sample has its pointers 5
  pixels apart, and its scale is \<open>+Infinity\<close>. A sample whose pointers coincide too has
  the scale \<open>NaN\<close>.
\<close>

theorem zero_start_distance_witness:
  "scale (fst (snd (computeInputData Math_round
      (fst (computeInputData Math_round empty_session
         (rawSample [pointerAt 5 5, pointerAt 5 5] [pointerAt 5 5, pointerAt 5 5] (Fin 0))))
      (rawSample [pointerAt 5 5, pointerAt 8 9] [pointerAt 8 9] (Fin 100))))) = PInf \<and>
   snd (snd (computeInputData Math_round
      (fst (computeInputData Math_round empty_session
         (rawSample [pointerAt 5 5, pointerAt 5 5] [pointerAt 5 5, pointerAt 5 5] (Fin 0))))
      (rawSample [pointerAt 5 5, pointerAt 8 9] [pointerAt 8 9] (Fin 100)))) = None \<and>
   getScale [pointerAt 5 5, pointerAt 5 5] [pointerAt 1 1, pointerAt 1 1] = Inr NaN"
proof -
  define s1 where "s1 = fst (computeInputData Math_round empty_session
      (rawSample [pointerAt 5 5, pointerAt 5 5] [pointerAt 5 5, pointerAt 5 5] (Fin 0)))"
  define fm where "fm = simpleCloneInputData Math_round
      (rawSample [pointerAt 5 5, pointerAt 5 5] [pointerAt 5 5, pointerAt 5 5] (Fin 0))"
  define d2 where "d2 = rawSample [pointerAt 5 5, pointerAt 8 9] [pointerAt 8 9] (Fin 100)"
  have s1: "firstMultiple s1 = Some fm"
    by (simp add: s1_def fm_def computeInputData_session empty_session_def rawSample_def)
  have fm: "snapshot.pointers fm = [pointerAt 5 5, pointerAt 5 5]"
    by (simp add: fm_def simpleCloneInputData_map rawSample_def pointerAt_def Let_def)
  have h2: "firstMultiple (fst (computeInputData Math_round s1 d2)) = Some fm"
    and p2: "inputData.pointers d2 = [pointerAt 5 5, pointerAt 8 9]"
    by (simp_all add: computeInputData_session s1 d2_def rawSample_def)
  note z = zero_start_distance [of "pointerAt 5 5" "pointerAt 5 5" "[]" "pointerAt 1 1" "pointerAt 1 1" "[]"
      Math_round s1 d2 fm "pointerAt 5 5" "pointerAt 5 5" "[]" "pointerAt 5 5" "pointerAt 8 9" "[]"]
  have err: "snd (snd (computeInputData Math_round s1 d2)) = None"
    and inf: "scale (fst (snd (computeInputData Math_round s1 d2))) = PInf \<or>
      scale (fst (snd (computeInputData Math_round s1 d2))) = NaN"
    using z h2 p2 fm by simp_all
  have "scale (fst (snd (computeInputData Math_round s1 d2))) =
      js_div (getDistance (pointerAt 5 5) (pointerAt 8 9) PROPS_CLIENT_XY)
        (getDistance (pointerAt 5 5) (pointerAt 5 5) PROPS_CLIENT_XY)"
    using computeInputData_two [of Math_round s1 d2 fm "pointerAt 5 5" "pointerAt 5 5" "[]"
        "pointerAt 5 5" "pointerAt 8 9" "[]"] h2 p2 fm
    by simp
  also have "\<dots> \<noteq> NaN"
    by (simp add: getDistance_def PROPS_CLIENT_XY_def pointerAt_def Let_def js_signed_inf_def)
  finally have pinf: "scale (fst (snd (computeInputData Math_round s1 d2))) = PInf"
    using inf by simp
  have "\<exists>v. getScale [pointerAt 5 5, pointerAt 5 5] [pointerAt 1 1, pointerAt 1 1] = Inr v \<and>
      \<not> js_finite v \<and> (v = PInf \<or> v = NaN)"
    using z by simp
  moreover have "getScale [pointerAt 5 5, pointerAt 5 5] [pointerAt 1 1, pointerAt 1 1] \<noteq> Inr PInf"
    by (simp add: getScale_two getDistance_def PROPS_CLIENT_XY_def pointerAt_def Let_def)
  ultimately have nan: "getScale [pointerAt 5 5, pointerAt 5 5] [pointerAt 1 1, pointerAt 1 1] = Inr NaN"
    by auto
  from pinf err nan show ?thesis
    unfolding s1_def d2_def by (intro conjI)
qed

section \<open>Velocity\<close>

text \<open>
  Claim C9. Every call assigns the constant 0.5 to \<^verbatim>\<open>velocity\<close>, \<^verbatim>\<open>velocityX\<close> and
  \<^verbatim>\<open>velocityY\<close>, whatever the sample and the session are, also when the call throws
  afterwards.
\<close>

theorem velocity_placeholder:
  "velocity (fst (snd (computeInputData rnd s d))) = Fin (1 / 2) \<and>
   velocityX (fst (snd (computeInputData rnd s d))) = Fin (1 / 2) \<and>
   velocityY (fst (snd (computeInputData rnd s d))) = Fin (1 / 2)"
  by (simp add: computeInputData_def Let_def split: option.split sum.split)

section \<open>The slots that scale and rotation read\<close>

text \<open>
  Claim C10. In a gesture whose samples all have at least one pointer, when a call
  leaves \<^verbatim>\<open>firstMultiple\<close> present, the stored pointer list and the pointer list of
  the sample both have at least two elements: the reads of slots 0 and 1 of either
  list are in range, \<^verbatim>\<open>getScale\<close> and \<^verbatim>\<open>getRotation\<close> return a number, and the call
  does not throw.
\<close>

theorem slots_in_bounds:
  assumes "\<forall>e \<in> set (ds @ [d]). 1 \<le> pointerCount e"
    and "firstMultiple (fst (computeInputData rnd (enrich_all rnd empty_session ds) d)) = Some fm"
  shows "2 \<le> length (snapshot.pointers fm) \<and> 2 \<le> pointerCount d \<and>
    nth_js (snapshot.pointers fm) 0 \<noteq> None \<and> nth_js (snapshot.pointers fm) 1 \<noteq> None \<and>
    nth_js (inputData.pointers d) 0 \<noteq> None \<and> nth_js (inputData.pointers d) 1 \<noteq> None \<and>
    (\<exists>sc. getScale (snapshot.pointers fm) (inputData.pointers d) = Inr sc) \<and>
    (\<exists>rot. getRotation (snapshot.pointers fm) (inputData.pointers d) = Inr rot) \<and>
    snd (snd (computeInputData rnd (enrich_all rnd empty_session ds) d)) = None"
proof -
  have "firstMultiple (enrich_all rnd empty_session (ds @ [d])) = Some fm"
    using assms(2) by (simp add: enrich_all_snoc)
  then have stored: "2 \<le> length (snapshot.pointers fm)"
    by (rule stored_multi_two)
  have "pointerCount d \<noteq> 1"
    using assms(2) by (auto simp add: computeInputData_session)
  moreover have "1 \<le> pointerCount d"
    using assms(1) by simp
  ultimately have current: "2 \<le> pointerCount d"
    by simp
  from stored obtain f0 f1 fs where fs: "snapshot.pointers fm = f0 # f1 # fs"
    by (cases "snapshot.pointers fm" rule: remdups_adj.cases) simp_all
  from current obtain c0 c1 cs where cs: "inputData.pointers d = c0 # c1 # cs"
    by (cases "inputData.pointers d" rule: remdups_adj.cases) simp_all
  have "snd (snd (computeInputData rnd (enrich_all rnd empty_session ds) d)) = None"
    using assms(2) fs cs by (rule computeInputData_two)
  with stored current show ?thesis
    by (simp add: fs cs getScale_two getRotation_two)
qed

theorem slots_in_bounds_witness:
  "2 \<le> length (snapshot.pointers (simpleCloneInputData Math_round
      (rawSample [pointerAt 0 0, pointerAt 10 0] [pointerAt 10 0] (Fin 1)))) \<and>
   snd (snd (computeInputData Math_round
      (enrich_all Math_round empty_session
        [rawSample [pointerAt 0 0] [pointerAt 0 0] (Fin 0),
         rawSample [pointerAt 0 0, pointerAt 10 0] [pointerAt 10 0] (Fin 1)])
      (rawSample [pointerAt 0 0, pointerAt 20 0] [pointerAt 20 0] (Fin 2)))) = None"
proof -
  define ds where "ds = [rawSample [pointerAt 0 0] [pointerAt 0 0] (Fin 0),
         rawSample [pointerAt 0 0, pointerAt 10 0] [pointerAt 10 0] (Fin 1)]"
  define d where "d = rawSample [pointerAt 0 0, pointerAt 20 0] [pointerAt 20 0] (Fin 2)"
  define fm where "fm = simpleCloneInputData Math_round
      (rawSample [pointerAt 0 0, pointerAt 10 0] [pointerAt 10 0] (Fin 1))"
  have contract: "\<forall>e \<in> set (ds @ [d]). 1 \<le> pointerCount e"
    by (simp add: ds_def d_def rawSample_def)
  have present: "firstMultiple (fst (computeInputData Math_round
      (enrich_all Math_round empty_session ds) d)) = Some fm"
    by (simp add: ds_def d_def fm_def computeInputData_session empty_session_def rawSample_def)
  from slots_in_bounds [OF contract present] show ?thesis
    unfolding ds_def d_def fm_def by simp
qed

end
